theory Spec2Isabelle
  imports Main
begin

section \<open>Status constants\<close>

text \<open>
  Modelled from the spec: the status constants are declared outside the files under
  \<^verbatim>\<open>src/\<close>; their values are the status names the spec and the schema description
  enumerate (STAGED, ACTIVE, SUSPENDED, DEPROVISIONED, PROVISIONED, PASSWORD_EXPIRED,
  RECOVERY).
\<close>

definition statusActive :: string where
  "statusActive = ''ACTIVE''"

definition userStatusStaged :: string where
  "userStatusStaged = ''STAGED''"

definition userStatusDeprovisioned :: string where
  "userStatusDeprovisioned = ''DEPROVISIONED''"

definition userStatusSuspended :: string where
  "userStatusSuspended = ''SUSPENDED''"

definition userStatusProvisioned :: string where
  "userStatusProvisioned = ''PROVISIONED''"

definition userStatusPasswordExpired :: string where
  "userStatusPasswordExpired = ''PASSWORD_EXPIRED''"

definition userStatusRecovery :: string where
  "userStatusRecovery = ''RECOVERY''"

section \<open>Status normalisation (resource_okta_user.go)\<close>

text \<open>\<^verbatim>\<open>mapStatus\<close>: PASSWORD_EXPIRED and RECOVERY are reported as ACTIVE.\<close>

definition mapStatus :: "string \<Rightarrow> string" where
  "mapStatus currentStatus =
     (if currentStatus = userStatusPasswordExpired \<or> currentStatus = userStatusRecovery
      then statusActive
      else currentStatus)"

text \<open>
  The \<^verbatim>\<open>DiffSuppressFunc\<close> of the \<^verbatim>\<open>status\<close> attribute: a difference between the
  recorded value \<open>old\<close> and the configured value \<open>new\<close> is ignored when it returns true.
\<close>

definition statusDiffSuppress :: "string \<Rightarrow> string \<Rightarrow> bool" where
  "statusDiffSuppress old new =
     (old = userStatusProvisioned \<and> new = statusActive
      \<or> old = userStatusPasswordExpired \<and> new = statusActive)"

section \<open>Application filters (app_filter.go)\<close>

record appFilters =
  Status :: string
  ID :: string
  Label :: string
  LabelPrefix :: string

text \<open>\<^verbatim>\<open>getQ\<close>: the \<^verbatim>\<open>q\<close> query parameter.\<close>

definition getQ :: "appFilters \<Rightarrow> string" where
  "getQ f = (if Label f \<noteq> [] then Label f else LabelPrefix f)"

text \<open>The four attributes \<^verbatim>\<open>getAppFilters\<close> reads from the data source's configuration.\<close>

record appFilterConfig =
  cfg_id :: string
  cfg_label :: string
  cfg_label_prefix :: string
  cfg_active_only :: bool

text \<open>\<^verbatim>\<open>fmt.Sprintf(`status eq "%s"`, statusActive)\<close>; \<open>CHR 0x22\<close> is the double quote.\<close>

definition statusEqActive :: string where
  "statusEqActive = ''status eq '' @ [CHR 0x22] @ statusActive @ [CHR 0x22]"

definition getAppFilters :: "appFilterConfig \<Rightarrow> string + appFilters" where
  "getAppFilters d =
     (let id = cfg_id d;
          label = cfg_label d;
          labelPrefix = cfg_label_prefix d;
          filters = \<lparr>Status = [], ID = id, Label = label, LabelPrefix = labelPrefix\<rparr>;
          filters = (if cfg_active_only d then filters\<lparr>Status := statusEqActive\<rparr> else filters)
      in if id = [] \<and> label = [] \<and> labelPrefix = []
         then Inl ''you must provide either a 'label_prefix', 'id', or 'label' for application search''
         else Inr filters)"

section \<open>The user resource: data (resource_okta_user.go)\<close>

text \<open>
  The attribute names \<^verbatim>\<open>hasProfileChange\<close> inspects. The list ends with
  \<^verbatim>\<open>password\<close>, \<^verbatim>\<open>recovery_question\<close> and \<^verbatim>\<open>recovery_answer\<close>.
\<close>

definition profileKeys :: "string list" where
  "profileKeys =
    [''city'', ''cost_center'', ''country_code'', ''custom_profile_attributes'',
     ''department'', ''display_name'', ''division'', ''email'', ''employee_number'',
     ''first_name'', ''honorific_prefix'', ''honorific_suffix'', ''last_name'', ''locale'',
     ''login'', ''manager'', ''manager_id'', ''middle_name'', ''mobile_phone'',
     ''nick_name'', ''organization'', ''postal_address'', ''preferred_language'',
     ''primary_phone'', ''profile_url'', ''second_email'', ''state'', ''street_address'',
     ''timezone'', ''title'', ''user_type'', ''zip_code'', ''password'',
     ''recovery_question'', ''recovery_answer'']"

text \<open>One element of the \<^verbatim>\<open>password_hash\<close> set (at most one element, \<^verbatim>\<open>MaxItems: 1\<close>).\<close>

record passwordHashElem =
  ph_algorithm :: string
  ph_work_factor :: int
  ph_salt :: string
  ph_salt_order :: string
  ph_value :: string

text \<open>
  The attribute values of one side of a \<^verbatim>\<open>schema.ResourceData\<close>: every
  \<^verbatim>\<open>TypeString\<close> attribute by name (the empty string is the zero value of an unset
  attribute), the two booleans, and the three sets, each as the list its \<^verbatim>\<open>List()\<close>
  returns.
\<close>

record attrs =
  strs :: "string \<Rightarrow> string"
  expire_password_on_create :: bool
  skip_roles :: bool
  admin_roles :: "string list"
  group_memberships :: "string list"
  password_hash :: "passwordHashElem list"

text \<open>
  \<^verbatim>\<open>d *schema.ResourceData\<close>: the identifier, the recorded (prior) values and the
  planned values. \<^verbatim>\<open>d.Get\<close> reads the planned side, \<^verbatim>\<open>d.HasChange\<close> compares
  the two sides, \<^verbatim>\<open>d.Set\<close> and \<^verbatim>\<open>d.SetId\<close> write. On delete the framework
  passes the recorded values with no difference, so both sides agree.
\<close>

record resourceData =
  rd_id :: string
  rd_state :: attrs
  rd_plan :: attrs

definition Get :: "resourceData \<Rightarrow> string \<Rightarrow> string" where
  "Get d k = strs (rd_plan d) k"

text \<open>\<^verbatim>\<open>d.GetOk\<close>: the second component tells whether the value differs from the zero value.\<close>

definition GetOk :: "resourceData \<Rightarrow> string \<Rightarrow> string \<times> bool" where
  "GetOk d k = (Get d k, Get d k \<noteq> [])"

definition HasChange :: "resourceData \<Rightarrow> string \<Rightarrow> bool" where
  "HasChange d k = (strs (rd_state d) k \<noteq> strs (rd_plan d) k)"

text \<open>\<^verbatim>\<open>d.HasChange\<close> on a set-valued attribute compares the two sets.\<close>

definition HasChangeSet :: "(attrs \<Rightarrow> 'a list) \<Rightarrow> resourceData \<Rightarrow> bool" where
  "HasChangeSet field d = (set (field (rd_state d)) \<noteq> set (field (rd_plan d)))"

text \<open>\<^verbatim>\<open>d.GetChange\<close> on a set-valued attribute: the old and the new set.\<close>

definition GetChangeSet :: "(attrs \<Rightarrow> 'a list) \<Rightarrow> resourceData \<Rightarrow> 'a list \<times> 'a list" where
  "GetChangeSet field d = (field (rd_state d), field (rd_plan d))"

text \<open>\<^verbatim>\<open>a.Difference(b).List()\<close>: the elements of \<open>a\<close> that are not in \<open>b\<close>.\<close>

definition Difference :: "'a list \<Rightarrow> 'a list \<Rightarrow> 'a list" where
  "Difference a b = filter (\<lambda>x. x \<notin> set b) a"

definition hasProfileChange :: "resourceData \<Rightarrow> bool" where
  "hasProfileChange d = list_ex (\<lambda>k. HasChange d k) profileKeys"

text \<open>
  Modelled from the spec: \<^verbatim>\<open>contains\<close> and \<^verbatim>\<open>convertInterfaceToStringSetNullable\<close>
  are helpers outside \<^verbatim>\<open>src/\<close>; the first is slice membership, the second returns
  nil for an empty set.
\<close>

definition contains :: "string list \<Rightarrow> string \<Rightarrow> bool" where
  "contains xs x = (x \<in> set xs)"

definition convertInterfaceToStringSetNullable :: "string list \<Rightarrow> string list option" where
  "convertInterfaceToStringSetNullable xs = (if xs = [] then None else Some xs)"

subsection \<open>Request and response bodies\<close>

record passwordCredentialHash =
  pch_Algorithm :: string
  pch_Value :: string
  pch_WorkFactor :: int
  pch_Salt :: string
  pch_SaltOrder :: string

text \<open>\<^verbatim>\<open>okta.PasswordCredential\<close>; \<open>pc_Hook\<close> holds the \<^verbatim>\<open>Type\<close> of the hook.\<close>

record passwordCredential =
  pc_Value :: string
  pc_Hash :: "passwordCredentialHash option"
  pc_Hook :: "string option"

record recoveryQuestionCredential =
  rq_Question :: string
  rq_Answer :: string

record userCredentials =
  uc_Password :: "passwordCredential option"
  uc_RecoveryQuestion :: "recoveryQuestionCredential option"

record 'p createUserRequest =
  cur_Profile :: 'p
  cur_Credentials :: userCredentials

text \<open>\<^verbatim>\<open>okta.User\<close> as a request body.\<close>

record 'p userBody =
  ub_Profile :: "'p option"
  ub_Credentials :: "userCredentials option"

text \<open>What the code reads of a returned user and of a returned role.\<close>

record apiUser =
  user_Id :: string
  user_Status :: string

record role =
  role_Id :: string
  role_Type :: string

text \<open>An error of the remote API: the HTTP status code of the response and the message.\<close>

record apiError =
  err_code :: nat
  err_msg :: string

definition buildPasswordCredentialHash :: "passwordHashElem list \<Rightarrow> passwordCredentialHash option" where
  "buildPasswordCredentialHash rawPasswordHash =
     (case rawPasswordHash of
        [] \<Rightarrow> None
      | hash # _ \<Rightarrow>
          Some \<lparr>pch_Algorithm = ph_algorithm hash, pch_Value = ph_value hash,
                pch_WorkFactor = ph_work_factor hash, pch_Salt = ph_salt hash,
                pch_SaltOrder = ph_salt_order hash\<rparr>)"

subsection \<open>The remote client\<close>

text \<open>
  The remote operations the resource issues. The first eight are methods of the SDK
  client called in \<^verbatim>\<open>resource_okta_user.go\<close>. \<open>CreateUser\<close> carries the
  \<^verbatim>\<open>activate\<close> query parameter (\<open>None\<close> when the parameters leave it unset).

  Modelled from the spec: the remaining eight are helper functions of this repository
  outside \<^verbatim>\<open>src/\<close> (\<^verbatim>\<open>listUserOnlyRoles\<close>, \<^verbatim>\<open>assignAdminRolesToUser\<close>,
  \<^verbatim>\<open>assignGroupsToUser\<close>, \<^verbatim>\<open>updateUserStatus\<close>, \<^verbatim>\<open>addUserToGroups\<close>,
  \<^verbatim>\<open>removeUserFromGroups\<close>, \<^verbatim>\<open>setAdminRoles\<close>, \<^verbatim>\<open>setGroupUserMemberships\<close>).
  Each is one opaque operation of the remote client adapter (list, assign roles, add or
  remove groups, change status) that succeeds or returns an error; what the last two
  write into the local state is not tracked.
\<close>

datatype 'p call =
    CreateUser "'p createUserRequest" "bool option"
  | GetUser string
  | UpdateUser string "'p userBody"
  | ChangePassword string passwordCredential passwordCredential
  | ChangeRecoveryQuestion string userCredentials
  | ExpirePassword string
  | DeactivateOrDeleteUser string
  | RemoveRoleFromUser string string
  | ListUserOnlyRoles string
  | AssignAdminRolesToUser string "string list" bool
  | AssignGroupsToUser string "string list"
  | UpdateUserStatus string string
  | AddUserToGroups string "string list"
  | RemoveUserFromGroups string "string list"
  | SetAdminRoles string
  | SetGroupUserMemberships string

text \<open>The observable effects in order: remote calls, and writes of the identifier.\<close>

datatype 'p event = Remote "'p call" | IdSet string

text \<open>
  The remote system: the reply to a call, given everything that happened before it.
  Calls that return a user, a role list, or only an error have one reply function each.
\<close>

record 'p client =
  userReply :: "'p event list \<Rightarrow> 'p call \<Rightarrow> apiError + apiUser"
  rolesReply :: "'p event list \<Rightarrow> 'p call \<Rightarrow> apiError + role list"
  errReply :: "'p event list \<Rightarrow> 'p call \<Rightarrow> apiError option"

record 'p world =
  w_data :: resourceData
  w_log :: "'p event list"

text \<open>
  Helpers outside \<^verbatim>\<open>src/\<close> that only touch local data, taken as parameters:
  \<^verbatim>\<open>populateUserProfile\<close> builds the profile payload; \<open>setNonPrimitives\<close> stands for
  \<^verbatim>\<open>setNonPrimitives(d, flattenUser(user))\<close>, which may fail.
\<close>

record 'p helpers =
  populateUserProfile :: "resourceData \<Rightarrow> 'p"
  setNonPrimitives :: "apiUser \<Rightarrow> resourceData \<Rightarrow> string + resourceData"

type_synonym diag = string

type_synonym 'p step = "'p world \<Rightarrow> diag option \<times> 'p world"

definition remote :: "'p client \<Rightarrow> 'p call \<Rightarrow> 'p world \<Rightarrow> apiError option \<times> 'p world" where
  "remote c k w = (errReply c (w_log w) k, w\<lparr>w_log := w_log w @ [Remote k]\<rparr>)"

definition remoteUser :: "'p client \<Rightarrow> 'p call \<Rightarrow> 'p world \<Rightarrow> (apiError + apiUser) \<times> 'p world" where
  "remoteUser c k w = (userReply c (w_log w) k, w\<lparr>w_log := w_log w @ [Remote k]\<rparr>)"

definition remoteRoles :: "'p client \<Rightarrow> 'p call \<Rightarrow> 'p world \<Rightarrow> (apiError + role list) \<times> 'p world" where
  "remoteRoles c k w = (rolesReply c (w_log w) k, w\<lparr>w_log := w_log w @ [Remote k]\<rparr>)"

definition SetId :: "string \<Rightarrow> 'p world \<Rightarrow> 'p world" where
  "SetId v w = w\<lparr>w_data := (w_data w)\<lparr>rd_id := v\<rparr>, w_log := w_log w @ [IdSet v]\<rparr>"

definition Set_str :: "string \<Rightarrow> string \<Rightarrow> 'p world \<Rightarrow> 'p world" where
  "Set_str k v w =
     w\<lparr>w_data := (w_data w)\<lparr>rd_plan := (rd_plan (w_data w))\<lparr>strs := (strs (rd_plan (w_data w)))(k := v)\<rparr>\<rparr>\<rparr>"

text \<open>\<^verbatim>\<open>if err != nil { return diag.Errorf(prefix + "%v", err) }\<close>\<close>

definition orFail :: "string \<Rightarrow> apiError option \<times> 'p world \<Rightarrow> diag option \<times> 'p world" where
  "orFail prefix r =
     (case r of (Some e, w) \<Rightarrow> (Some (prefix @ err_msg e), w) | (None, w) \<Rightarrow> (None, w))"

text \<open>
  Modelled from the spec: \<^verbatim>\<open>suppressErrorOn404\<close> is outside \<^verbatim>\<open>src/\<close>; a
  "not found" response is treated as benign and absorbed.
\<close>

definition suppressErrorOn404 :: "apiError option \<Rightarrow> apiError option" where
  "suppressErrorOn404 r =
     (case r of None \<Rightarrow> None | Some e \<Rightarrow> if err_code e = 404 then None else Some e)"

text \<open>Statements in sequence: the first diagnostics returned end the function.\<close>

fun runSteps :: "'p step list \<Rightarrow> 'p step" where
  "runSteps [] w = (None, w)"
| "runSteps (s # ss) w =
     (case s w of (Some e, w') \<Rightarrow> (Some e, w') | (None, w') \<Rightarrow> runSteps ss w')"

section \<open>The user resource: operations\<close>

subsection \<open>Read\<close>

definition readRoles :: "'p client \<Rightarrow> 'p step" where
  "readRoles c w =
     (if \<not> skip_roles (rd_plan (w_data w))
      then orFail ''failed to set user's admin roles: ''
             (remote c (SetAdminRoles (rd_id (w_data w))) w)
      else (None, w))"

definition readGroups :: "'p client \<Rightarrow> 'p step" where
  "readGroups c w =
     (if group_memberships (rd_plan (w_data w)) \<noteq> []
      then orFail ''failed to set user's groups: ''
             (remote c (SetGroupUserMemberships (rd_id (w_data w))) w)
      else (None, w))"

definition resourceUserRead :: "'p helpers \<Rightarrow> 'p client \<Rightarrow> 'p step" where
  "resourceUserRead h c w =
     (case remoteUser c (GetUser (rd_id (w_data w))) w of
        (Inl e, w1) \<Rightarrow>
          (case suppressErrorOn404 (Some e) of
             Some e' \<Rightarrow> (Some (''failed to get user: '' @ err_msg e'), w1)
           | None \<Rightarrow> (None, SetId [] w1))
      | (Inr user, w1) \<Rightarrow>
          (let w2 = Set_str ''raw_status'' (user_Status user) w1
           in case setNonPrimitives h user (w_data w2) of
                Inl err \<Rightarrow> (Some (''failed to set user's properties: '' @ err), w2)
              | Inr d3 \<Rightarrow> runSteps [readRoles c, readGroups c] (w2\<lparr>w_data := d3\<rparr>)))"

subsection \<open>Create\<close>

definition createRoles :: "'p client \<Rightarrow> string \<Rightarrow> 'p step" where
  "createRoles c uid w =
     (if admin_roles (rd_plan (w_data w)) \<noteq> []
      then (case convertInterfaceToStringSetNullable (admin_roles (rd_plan (w_data w))) of
              None \<Rightarrow> (None, w)
            | Some roles \<Rightarrow> orFail [] (remote c (AssignAdminRolesToUser uid roles False) w))
      else (None, w))"

definition createGroups :: "'p client \<Rightarrow> string \<Rightarrow> 'p step" where
  "createGroups c uid w =
     (if group_memberships (rd_plan (w_data w)) \<noteq> []
      then (let groups = (case convertInterfaceToStringSetNullable
                                 (group_memberships (rd_plan (w_data w))) of
                            None \<Rightarrow> [] | Some gs \<Rightarrow> gs)
            in orFail [] (remote c (AssignGroupsToUser uid groups) w))
      else (None, w))"

definition createStatus :: "'p client \<Rightarrow> string \<Rightarrow> 'p step" where
  "createStatus c uid w =
     (if Get (w_data w) ''status'' = userStatusSuspended
         \<or> Get (w_data w) ''status'' = userStatusDeprovisioned
      then orFail ''failed to update user status: ''
             (remote c (UpdateUserStatus uid (Get (w_data w) ''status'')) w)
      else (None, w))"

definition createExpire :: "'p client \<Rightarrow> string \<Rightarrow> 'p step" where
  "createExpire c uid w =
     (if expire_password_on_create (rd_plan (w_data w))
      then orFail ''failed to expire user's password: '' (remote c (ExpirePassword uid) w)
      else (None, w))"

text \<open>The credentials of the create request (lines 387 to 408).\<close>

definition createCredentials :: "resourceData \<Rightarrow> userCredentials" where
  "createCredentials d =
     (let uc = \<lparr>uc_Password =
                  Some \<lparr>pc_Value = Get d ''password'',
                        pc_Hash = buildPasswordCredentialHash (password_hash (rd_plan d)),
                        pc_Hook = None\<rparr>,
                uc_RecoveryQuestion = None\<rparr>;
          pih = Get d ''password_inline_hook'';
          uc = (if pih \<noteq> []
                then uc\<lparr>uc_Password := Some \<lparr>pc_Value = [], pc_Hash = None, pc_Hook = Some pih\<rparr>\<rparr>
                else uc);
          recoveryQuestion = Get d ''recovery_question'';
          recoveryAnswer = Get d ''recovery_answer''
      in if recoveryQuestion \<noteq> []
         then uc\<lparr>uc_RecoveryQuestion :=
                   Some \<lparr>rq_Question = recoveryQuestion, rq_Answer = recoveryAnswer\<rparr>\<rparr>
         else uc)"

definition createRequest :: "'p helpers \<Rightarrow> resourceData \<Rightarrow> 'p call" where
  "createRequest h d =
     (let profile = populateUserProfile h d;
          qp = (if Get d ''status'' = userStatusStaged then Some False else None);
          userBody = \<lparr>cur_Profile = profile, cur_Credentials = createCredentials d\<rparr>
      in CreateUser userBody qp)"

definition resourceUserCreate :: "'p helpers \<Rightarrow> 'p client \<Rightarrow> 'p step" where
  "resourceUserCreate h c w =
     (case remoteUser c (createRequest h (w_data w)) w of
        (Inl e, w1) \<Rightarrow> (Some (''failed to create user: '' @ err_msg e), w1)
      | (Inr user, w1) \<Rightarrow>
          runSteps
            [createRoles c (user_Id user), createGroups c (user_Id user),
             createStatus c (user_Id user), createExpire c (user_Id user),
             resourceUserRead h c]
            (SetId (user_Id user) w1))"

subsection \<open>Update\<close>

definition updPasswordCheck :: "'p client \<Rightarrow> bool \<Rightarrow> 'p step" where
  "updPasswordCheck c passwordChange w =
     (if passwordChange
      then (case remoteUser c (GetUser (rd_id (w_data w))) w of
              (Inl e, w1) \<Rightarrow> (Some (''failed to get user: '' @ err_msg e), w1)
            | (Inr user, w1) \<Rightarrow>
                if user_Status user = ''PROVISIONED''
                then (Some (''can not change password for provisioned user, the activation workflow should be ''
                        @ ''finished first. Please, check this diagram https://developer.okta.com/docs/reference/api/users/#user-status for more clarity.''), w1)
                else (None, w1))
      else (None, w))"

definition updStatus :: "'p client \<Rightarrow> bool \<Rightarrow> string \<Rightarrow> 'p step" where
  "updStatus c statusChange status w =
     (if statusChange
      then (case remote c (UpdateUserStatus (rd_id (w_data w)) status) w of
              (Some e, w1) \<Rightarrow> (Some (''failed to update user status: '' @ err_msg e), w1)
            | (None, w1) \<Rightarrow> (None, Set_str ''status'' status w1))
      else (None, w))"

definition updDeprovisionedCheck :: "string \<Rightarrow> bool \<Rightarrow> 'p step" where
  "updDeprovisionedCheck status userChange w =
     (if status = userStatusDeprovisioned \<and> userChange
      then (Some ''Only the status of a DEPROVISIONED user can be updated, we detected other change'', w)
      else (None, w))"

definition updateBody :: "'p helpers \<Rightarrow> bool \<Rightarrow> bool \<Rightarrow> resourceData \<Rightarrow> 'p userBody" where
  "updateBody h passwordHashChange passwordHookChange d =
     (let profile = populateUserProfile h d;
          userBody = \<lparr>ub_Profile = Some profile, ub_Credentials = None\<rparr>;
          userBody =
            (if passwordHashChange
             then userBody\<lparr>ub_Credentials :=
                    Some \<lparr>uc_Password =
                            Some \<lparr>pc_Value = [],
                                  pc_Hash = buildPasswordCredentialHash (password_hash (rd_plan d)),
                                  pc_Hook = None\<rparr>,
                          uc_RecoveryQuestion = None\<rparr>\<rparr>
             else userBody);
          pih = Get d ''password_inline_hook''
      in if passwordHookChange \<and> pih \<noteq> []
         then userBody\<lparr>ub_Credentials :=
                Some \<lparr>uc_Password = Some \<lparr>pc_Value = [], pc_Hash = None, pc_Hook = Some pih\<rparr>,
                      uc_RecoveryQuestion = None\<rparr>\<rparr>
         else userBody)"

definition updProfile :: "'p helpers \<Rightarrow> 'p client \<Rightarrow> bool \<Rightarrow> bool \<Rightarrow> bool \<Rightarrow> 'p step" where
  "updProfile h c userChange passwordHashChange passwordHookChange w =
     (if userChange \<or> passwordHashChange \<or> passwordHookChange
      then orFail ''failed to update user: ''
             (remote c (UpdateUser (rd_id (w_data w))
                          (updateBody h passwordHashChange passwordHookChange (w_data w))) w)
      else (None, w))"

text \<open>The loop over the fetched roles (lines 581 to 588).\<close>

fun removeRoles :: "'p client \<Rightarrow> string list \<Rightarrow> role list \<Rightarrow> 'p step" where
  "removeRoles c rolesToRemove [] w = (None, w)"
| "removeRoles c rolesToRemove (r # roles) w =
     (if contains rolesToRemove (role_Type r)
      then (case remote c (RemoveRoleFromUser (rd_id (w_data w)) (role_Id r)) w of
              (resp, w1) \<Rightarrow>
                (case suppressErrorOn404 resp of
                   Some e \<Rightarrow> (Some (''failed to remove user's role: '' @ err_msg e), w1)
                 | None \<Rightarrow> removeRoles c rolesToRemove roles w1))
      else removeRoles c rolesToRemove roles w)"

definition updRoles :: "'p client \<Rightarrow> bool \<Rightarrow> 'p step" where
  "updRoles c roleChange w =
     (if roleChange
      then (case GetChangeSet admin_roles (w_data w) of
              (oldSet, newSet) \<Rightarrow>
                (let rolesToAdd = Difference newSet oldSet;
                     rolesToRemove = Difference oldSet newSet
                 in case remoteRoles c (ListUserOnlyRoles (rd_id (w_data w))) w of
                      (Inl e, w1) \<Rightarrow> (Some (''failed to list user's roles: '' @ err_msg e), w1)
                    | (Inr roles, w1) \<Rightarrow>
                        (case removeRoles c rolesToRemove roles w1 of
                           (Some err, w2) \<Rightarrow> (Some err, w2)
                         | (None, w2) \<Rightarrow>
                             orFail []
                               (remote c (AssignAdminRolesToUser (rd_id (w_data w2)) rolesToAdd False) w2))))
      else (None, w))"

definition updGroups :: "'p client \<Rightarrow> bool \<Rightarrow> 'p step" where
  "updGroups c groupChange w =
     (if groupChange
      then (case GetChangeSet group_memberships (w_data w) of
              (oldSet, newSet) \<Rightarrow>
                (let groupsToAdd = Difference newSet oldSet;
                     groupsToRemove = Difference oldSet newSet
                 in case orFail [] (remote c (AddUserToGroups (rd_id (w_data w)) groupsToAdd) w) of
                      (Some err, w1) \<Rightarrow> (Some err, w1)
                    | (None, w1) \<Rightarrow>
                        orFail [] (remote c (RemoveUserFromGroups (rd_id (w_data w1)) groupsToRemove) w1)))
      else (None, w))"

definition updPassword :: "'p client \<Rightarrow> bool \<Rightarrow> 'p step" where
  "updPassword c passwordChange w =
     (if passwordChange
      then (let oldPassword = strs (rd_state (w_data w)) ''password'';
                newPassword = strs (rd_plan (w_data w)) ''password'';
                (old, oldPasswordExist) = GetOk (w_data w) ''old_password'';
                oldPassword = (if oldPasswordExist then old else oldPassword)
            in if oldPasswordExist
               then orFail ''failed to update user's password: ''
                      (remote c (ChangePassword (rd_id (w_data w))
                                   \<lparr>pc_Value = oldPassword, pc_Hash = None, pc_Hook = None\<rparr>
                                   \<lparr>pc_Value = newPassword, pc_Hash = None, pc_Hook = None\<rparr>) w)
               else orFail ''failed to set user's password: ''
                      (remote c (UpdateUser (rd_id (w_data w))
                                   \<lparr>ub_Profile = None,
                                    ub_Credentials =
                                      Some \<lparr>uc_Password =
                                              Some \<lparr>pc_Value = newPassword, pc_Hash = None, pc_Hook = None\<rparr>,
                                            uc_RecoveryQuestion = None\<rparr>\<rparr>) w))
      else (None, w))"

definition updRecovery :: "'p client \<Rightarrow> bool \<Rightarrow> 'p step" where
  "updRecovery c recoveryChange w =
     (if recoveryChange
      then orFail ''failed to change user's password recovery question: ''
             (remote c (ChangeRecoveryQuestion (rd_id (w_data w))
                          \<lparr>uc_Password =
                             Some \<lparr>pc_Value = Get (w_data w) ''password'', pc_Hash = None, pc_Hook = None\<rparr>,
                           uc_RecoveryQuestion =
                             Some \<lparr>rq_Question = Get (w_data w) ''recovery_question'',
                                   rq_Answer = Get (w_data w) ''recovery_answer''\<rparr>\<rparr>) w)
      else (None, w))"

definition resourceUserUpdate :: "'p helpers \<Rightarrow> 'p client \<Rightarrow> 'p step" where
  "resourceUserUpdate h c w =
     (let d = w_data w;
          status = Get d ''status'';
          statusChange = HasChange d ''status''
      in if status = userStatusStaged \<and> statusChange
         then (Some ''Okta will not allow a user to be updated to STAGED. Can set to STAGED on user creation only'', w)
         else
           (let roleChange = HasChangeSet admin_roles d;
                groupChange = HasChangeSet group_memberships d;
                userChange = hasProfileChange d;
                passwordChange = HasChange d ''password'';
                passwordHashChange = HasChangeSet password_hash d;
                passwordHookChange = HasChange d ''password_inline_hook'';
                recoveryQuestionChange = HasChange d ''recovery_question'';
                recoveryAnswerChange = HasChange d ''recovery_answer''
            in runSteps
                 [updPasswordCheck c passwordChange,
                  updStatus c statusChange status,
                  updDeprovisionedCheck status userChange,
                  updProfile h c userChange passwordHashChange passwordHookChange,
                  updRoles c roleChange,
                  updGroups c groupChange,
                  updPassword c passwordChange,
                  updRecovery c (recoveryQuestionChange \<or> recoveryAnswerChange),
                  resourceUserRead h c] w))"

subsection \<open>Delete\<close>

text \<open>The loop \<^verbatim>\<open>for i := 0; i < passes; i++\<close>, by the number of passes left.\<close>

fun deletePasses :: "'p client \<Rightarrow> string \<Rightarrow> nat \<Rightarrow> 'p step" where
  "deletePasses c uid 0 w = (None, w)"
| "deletePasses c uid (Suc n) w =
     (case remote c (DeactivateOrDeleteUser uid) w of
        (Some e, w1) \<Rightarrow> (Some (''failed to deprovision or delete user from Okta: '' @ err_msg e), w1)
      | (None, w1) \<Rightarrow> deletePasses c uid n w1)"

definition ensureUserDelete :: "'p client \<Rightarrow> string \<Rightarrow> string \<Rightarrow> 'p step" where
  "ensureUserDelete c uid status w =
     (let passes = (if status = userStatusDeprovisioned then 1 else 2)
      in deletePasses c uid passes w)"

definition resourceUserDelete :: "'p client \<Rightarrow> 'p step" where
  "resourceUserDelete c w =
     (case ensureUserDelete c (rd_id (w_data w)) (Get (w_data w) ''status'') w of
        (Some err, w1) \<Rightarrow> (Some err, w1)
      | (None, w1) \<Rightarrow> (None, w1))"

section \<open>Validation of the credential attributes\<close>

text \<open>
  The \<^verbatim>\<open>ConflictsWith\<close> declarations of the schema of the user resource: only
  \<^verbatim>\<open>password_inline_hook\<close> declares any; \<^verbatim>\<open>password\<close> and
  \<^verbatim>\<open>password_hash\<close> declare none.
\<close>

definition ConflictsWith :: "string \<Rightarrow> string list" where
  "ConflictsWith k =
     (if k = ''password_inline_hook'' then [''password'', ''password_hash''] else [])"

text \<open>
  Modelled from the spec: the check of the declarations is the schema collaborator's,
  outside \<^verbatim>\<open>src/\<close>. An attribute the configuration sets is rejected when the
  configuration also sets an attribute named in its \<^verbatim>\<open>ConflictsWith\<close>; validation
  errors are raised before any remote call. \<open>configured\<close> lists the attributes the
  configuration sets.
\<close>

definition validateConflictingAttributes :: "string list \<Rightarrow> string \<Rightarrow> string option" where
  "validateConflictingAttributes configured k =
     (case filter (\<lambda>conflictingKey. conflictingKey \<in> set configured) (ConflictsWith k) of
        [] \<Rightarrow> None
      | conflictingKey # _ \<Rightarrow> Some (k @ '': conflicts with '' @ conflictingKey))"

definition validateUserConfig :: "string list \<Rightarrow> string list" where
  "validateUserConfig configured =
     List.map_filter (validateConflictingAttributes configured) configured"

definition validatedCreate :: "'p helpers \<Rightarrow> 'p client \<Rightarrow> string list \<Rightarrow> 'p step" where
  "validatedCreate h c configured w =
     (case validateUserConfig configured of
        [] \<Rightarrow> resourceUserCreate h c w
      | e # _ \<Rightarrow> (Some e, w))"

section \<open>Naming the operations in a log\<close>

datatype kind =
    KCreateUser | KGetUser | KUpdateUser | KChangePassword | KChangeRecoveryQuestion
  | KExpirePassword | KDeactivateOrDeleteUser | KRemoveRoleFromUser | KListUserOnlyRoles
  | KAssignAdminRolesToUser | KAssignGroupsToUser | KUpdateUserStatus | KAddUserToGroups
  | KRemoveUserFromGroups | KSetAdminRoles | KSetGroupUserMemberships | KIdSet

fun kindOf :: "'p event \<Rightarrow> kind" where
  "kindOf (Remote (CreateUser _ _)) = KCreateUser"
| "kindOf (Remote (GetUser _)) = KGetUser"
| "kindOf (Remote (UpdateUser _ _)) = KUpdateUser"
| "kindOf (Remote (ChangePassword _ _ _)) = KChangePassword"
| "kindOf (Remote (ChangeRecoveryQuestion _ _)) = KChangeRecoveryQuestion"
| "kindOf (Remote (ExpirePassword _)) = KExpirePassword"
| "kindOf (Remote (DeactivateOrDeleteUser _)) = KDeactivateOrDeleteUser"
| "kindOf (Remote (RemoveRoleFromUser _ _)) = KRemoveRoleFromUser"
| "kindOf (Remote (ListUserOnlyRoles _)) = KListUserOnlyRoles"
| "kindOf (Remote (AssignAdminRolesToUser _ _ _)) = KAssignAdminRolesToUser"
| "kindOf (Remote (AssignGroupsToUser _ _)) = KAssignGroupsToUser"
| "kindOf (Remote (UpdateUserStatus _ _)) = KUpdateUserStatus"
| "kindOf (Remote (AddUserToGroups _ _)) = KAddUserToGroups"
| "kindOf (Remote (RemoveUserFromGroups _ _)) = KRemoveUserFromGroups"
| "kindOf (Remote (SetAdminRoles _)) = KSetAdminRoles"
| "kindOf (Remote (SetGroupUserMemberships _)) = KSetGroupUserMemberships"
| "kindOf (IdSet _) = KIdSet"

text \<open>The kinds of the events of a log, in order.\<close>

definition kinds :: "'p event list \<Rightarrow> kind list" where
  "kinds xs = map kindOf xs"

text \<open>A step only appends to the log, and what it appends has kinds in \<open>K\<close>.\<close>

definition emits :: "kind set \<Rightarrow> 'p step \<Rightarrow> bool" where
  "emits K f = (\<forall>w. \<exists>xs. w_log (snd (f w)) = w_log w @ xs \<and> set (kinds xs) \<subseteq> K)"

text \<open>What the final read may append: the fetch, the two listings, a cleared identifier.\<close>

definition readKinds :: "kind set" where
  "readKinds = {KGetUser, KIdSet, KSetAdminRoles, KSetGroupUserMemberships}"

text \<open>The kinds of the three role operations of an update.\<close>

definition roleKinds :: "kind set" where
  "roleKinds = {KListUserOnlyRoles, KRemoveRoleFromUser, KAssignAdminRolesToUser}"

text \<open>What the role step of an update reads of the resource data.\<close>

definition roleView :: "resourceData \<Rightarrow> string \<times> string list \<times> string list" where
  "roleView d = (rd_id d, admin_roles (rd_state d), admin_roles (rd_plan d))"

text \<open>
  The role calls of an update as the spec words them: against the role list just fetched
  from the remote system, first one removal for every fetched role whose type is in the
  removal delta, then the addition of the roles to add.
\<close>

definition expectedRoleCalls :: "string \<Rightarrow> string list \<Rightarrow> string list \<Rightarrow> role list \<Rightarrow> 'p event list" where
  "expectedRoleCalls uid rolesToRemove rolesToAdd fetched =
     Remote (ListUserOnlyRoles uid)
     # map (\<lambda>r. Remote (RemoveRoleFromUser uid (role_Id r)))
         (filter (\<lambda>r. role_Type r \<in> set rolesToRemove) fetched)
     @ [Remote (AssignAdminRolesToUser uid rolesToAdd False)]"

text \<open>Every reply to a role removal for user \<open>uid\<close> is a success or a 404.\<close>

definition removalsBenign :: "'p client \<Rightarrow> string \<Rightarrow> bool" where
  "removalsBenign c uid =
     (\<forall>hist rid. case errReply c hist (RemoveRoleFromUser uid rid) of
                   None \<Rightarrow> True
                 | Some e \<Rightarrow> err_code e = 404)"

text \<open>
  Only the password changed: \<^verbatim>\<open>password\<close> differs between the recorded and the
  planned values, and nothing else does (\<^verbatim>\<open>old_password\<close>, which the update never
  compares, is left free).
\<close>

definition onlyPasswordChanged :: "resourceData \<Rightarrow> bool" where
  "onlyPasswordChanged d =
     (HasChange d ''password''
      \<and> (\<forall>k. k \<noteq> ''password'' \<and> k \<noteq> ''old_password'' \<longrightarrow> \<not> HasChange d k)
      \<and> \<not> HasChangeSet admin_roles d
      \<and> \<not> HasChangeSet group_memberships d
      \<and> \<not> HasChangeSet password_hash d)"

section \<open>Example inputs\<close>

text \<open>
  Concrete helpers, remote systems and resource data, used to evaluate the operations:
  a profile payload that is just the login, a remote system on which every call
  succeeds, one that answers 404 to every role removal, and one on which every call
  that returns only an error fails with a 500.
\<close>

definition exHelpers :: "string helpers" where
  "exHelpers = \<lparr>populateUserProfile = (\<lambda>d. Get d ''login''), setNonPrimitives = (\<lambda>user d. Inr d)\<rparr>"

definition exUser :: apiUser where
  "exUser = \<lparr>user_Id = ''00u1'', user_Status = ''ACTIVE''\<rparr>"

definition exRoles :: "role list" where
  "exRoles = [\<lparr>role_Id = ''ra1'', role_Type = ''APP_ADMIN''\<rparr>,
              \<lparr>role_Id = ''ra2'', role_Type = ''USER_ADMIN''\<rparr>,
              \<lparr>role_Id = ''ra3'', role_Type = ''HELP_DESK_ADMIN''\<rparr>]"

definition okClient :: "string client" where
  "okClient = \<lparr>userReply = (\<lambda>log k. Inr exUser), rolesReply = (\<lambda>log k. Inr exRoles),
               errReply = (\<lambda>log k. None)\<rparr>"

definition notFoundClient :: "string client" where
  "notFoundClient =
     okClient\<lparr>errReply :=
       (\<lambda>log k. case k of
                   RemoveRoleFromUser uid rid \<Rightarrow> Some \<lparr>err_code = 404, err_msg = ''Not found''\<rparr>
                 | _ \<Rightarrow> None)\<rparr>"

definition failingClient :: "string client" where
  "failingClient =
     okClient\<lparr>errReply := (\<lambda>log k. Some \<lparr>err_code = 500, err_msg = ''Internal Server Error''\<rparr>)\<rparr>"

definition exAttrs :: "(string \<times> string) list \<Rightarrow> attrs" where
  "exAttrs kvs =
     \<lparr>strs = (\<lambda>k. case map_of kvs k of None \<Rightarrow> [] | Some v \<Rightarrow> v),
      expire_password_on_create = False, skip_roles = False, admin_roles = [],
      group_memberships = [], password_hash = []\<rparr>"

definition exWorld :: "string \<Rightarrow> attrs \<Rightarrow> attrs \<Rightarrow> string world" where
  "exWorld uid old new = \<lparr>w_data = \<lparr>rd_id = uid, rd_state = old, rd_plan = new\<rparr>, w_log = []\<rparr>"

text \<open>
  A recorded user whose planned password differs, with \<^verbatim>\<open>old_password\<close> supplied and
  nothing else changed.
\<close>

definition exPasswordUpdate :: "string world" where
  "exPasswordUpdate =
     exWorld ''00u1''
       (exAttrs [(''login'', ''a@b.com''), (''password'', ''old-secret'')])
       (exAttrs [(''login'', ''a@b.com''), (''password'', ''new-secret''),
                 (''old_password'', ''old-secret'')])"


section \<open>Properties\<close>

lemma statusEqActive_nonempty: "statusEqActive \<noteq> []"
  by (simp add: statusEqActive_def)

text \<open>
  C4. \<^verbatim>\<open>mapStatus\<close> sends PASSWORD_EXPIRED and RECOVERY to ACTIVE and is the identity on
  every other status string.
\<close>

theorem mapStatus_spec:
  "mapStatus ''PASSWORD_EXPIRED'' = ''ACTIVE''
   \<and> mapStatus ''RECOVERY'' = ''ACTIVE''
   \<and> (X \<noteq> ''PASSWORD_EXPIRED'' \<and> X \<noteq> ''RECOVERY'' \<longrightarrow> mapStatus X = X)"
  by (simp add: mapStatus_def statusActive_def userStatusPasswordExpired_def
      userStatusRecovery_def)

theorem mapStatus_spec_witness:
  "''SUSPENDED'' \<noteq> ''PASSWORD_EXPIRED'' \<and> ''SUSPENDED'' \<noteq> ''RECOVERY''
   \<and> mapStatus ''SUSPENDED'' = ''SUSPENDED''
   \<and> mapStatus ''PASSWORD_EXPIRED'' = ''ACTIVE'' \<and> mapStatus ''RECOVERY'' = ''ACTIVE''"
  using mapStatus_spec [of "''SUSPENDED''"] by simp


text \<open>
  C5. Not every transient status is mapped by \<^verbatim>\<open>mapStatus\<close>: it sends
  PASSWORD_EXPIRED and RECOVERY to ACTIVE and leaves PROVISIONED as it is. PROVISIONED
  (and PASSWORD_EXPIRED) count as ACTIVE only through the difference suppression of the
  \<^verbatim>\<open>status\<close> attribute, which in turn does not cover RECOVERY.
\<close>

theorem transient_statuses:
  "mapStatus ''PASSWORD_EXPIRED'' = ''ACTIVE''
   \<and> mapStatus ''RECOVERY'' = ''ACTIVE''
   \<and> mapStatus ''PROVISIONED'' = ''PROVISIONED''
   \<and> statusDiffSuppress ''PROVISIONED'' ''ACTIVE''
   \<and> statusDiffSuppress ''PASSWORD_EXPIRED'' ''ACTIVE''
   \<and> \<not> statusDiffSuppress ''RECOVERY'' ''ACTIVE''"
  by (simp add: mapStatus_def statusDiffSuppress_def statusActive_def
      userStatusPasswordExpired_def userStatusRecovery_def userStatusProvisioned_def)

text \<open>The claim as stated fails: \<^verbatim>\<open>mapStatus\<close> does not map PROVISIONED to ACTIVE.\<close>

theorem mapStatus_provisioned_counterexample:
  "mapStatus ''PROVISIONED'' \<noteq> ''ACTIVE''"
  by (simp add: mapStatus_def statusActive_def userStatusPasswordExpired_def
      userStatusRecovery_def)

text \<open>
  C8. \<^verbatim>\<open>getAppFilters\<close> returns an error exactly when id, label and label prefix
  are all empty. Otherwise the query term of the filter is the label when it is not
  empty and the label prefix otherwise, and the status clause is the status-equality
  expression \<^verbatim>\<open>status eq "ACTIVE"\<close> exactly when \<^verbatim>\<open>active_only\<close> is set (it is
  empty otherwise). The expression is spelled out character by character, \<open>CHR 0x22\<close>
  being the double quote.
\<close>

theorem getAppFilters_spec:
  "(isl (getAppFilters d) \<longleftrightarrow> cfg_id d = [] \<and> cfg_label d = [] \<and> cfg_label_prefix d = [])
   \<and> (\<forall>f. getAppFilters d = Inr f \<longrightarrow>
         getQ f = (if cfg_label d \<noteq> [] then cfg_label d else cfg_label_prefix d)
         \<and> Status f = (if cfg_active_only d
                        then ''status eq '' @ [CHR 0x22] @ ''ACTIVE'' @ [CHR 0x22]
                        else [])
         \<and> (Status f = ''status eq '' @ [CHR 0x22] @ ''ACTIVE'' @ [CHR 0x22] \<longleftrightarrow> cfg_active_only d)
         \<and> (Status f = statusEqActive \<longleftrightarrow> cfg_active_only d)
         \<and> (Status f = [] \<longleftrightarrow> \<not> cfg_active_only d)
         \<and> ID f = cfg_id d \<and> Label f = cfg_label d \<and> LabelPrefix f = cfg_label_prefix d)"
  by (auto simp add: getAppFilters_def getQ_def Let_def statusEqActive_def statusActive_def)

theorem getAppFilters_spec_witness:
  "getAppFilters \<lparr>cfg_id = [], cfg_label = ''crm'', cfg_label_prefix = ''c'', cfg_active_only = True\<rparr>
     = Inr \<lparr>Status = ''status eq '' @ [CHR 0x22] @ ''ACTIVE'' @ [CHR 0x22], ID = [],
            Label = ''crm'', LabelPrefix = ''c''\<rparr>
   \<and> getQ \<lparr>Status = ''status eq '' @ [CHR 0x22] @ ''ACTIVE'' @ [CHR 0x22], ID = [],
            Label = ''crm'', LabelPrefix = ''c''\<rparr> = ''crm''
   \<and> getAppFilters \<lparr>cfg_id = ''0oa1'', cfg_label = [], cfg_label_prefix = ''c'', cfg_active_only = False\<rparr>
     = Inr \<lparr>Status = [], ID = ''0oa1'', Label = [], LabelPrefix = ''c''\<rparr>
   \<and> isl (getAppFilters \<lparr>cfg_id = [], cfg_label = [], cfg_label_prefix = [], cfg_active_only = True\<rparr>)"
  using getAppFilters_spec [of "\<lparr>cfg_id = [], cfg_label = ''crm'', cfg_label_prefix = ''c'', cfg_active_only = True\<rparr>"]
    getAppFilters_spec [of "\<lparr>cfg_id = ''0oa1'', cfg_label = [], cfg_label_prefix = ''c'', cfg_active_only = False\<rparr>"]
    getAppFilters_spec [of "\<lparr>cfg_id = [], cfg_label = [], cfg_label_prefix = [], cfg_active_only = True\<rparr>"]
  by (simp add: getAppFilters_def getQ_def Let_def statusEqActive_def statusActive_def)

subsection \<open>Logs of the steps\<close>

lemmas ex_defs = exHelpers_def exUser_def exRoles_def okClient_def notFoundClient_def
  failingClient_def exAttrs_def exWorld_def

lemmas run_defs = resourceUserCreate_def createRequest_def createCredentials_def
  createRoles_def createGroups_def createStatus_def createExpire_def resourceUserRead_def
  readRoles_def readGroups_def remote_def remoteUser_def remoteRoles_def orFail_def SetId_def
  Set_str_def suppressErrorOn404_def Get_def GetOk_def HasChange_def HasChangeSet_def
  GetChangeSet_def Difference_def contains_def convertInterfaceToStringSetNullable_def
  buildPasswordCredentialHash_def userStatusStaged_def userStatusSuspended_def
  userStatusDeprovisioned_def Let_def

lemma log_remote [simp]: "w_log (snd (remote c k w)) = w_log w @ [Remote k]"
  by (simp add: remote_def)

lemma data_remote [simp]: "w_data (snd (remote c k w)) = w_data w"
  by (simp add: remote_def)

lemma log_orFail [simp]: "w_log (snd (orFail p r)) = w_log (snd r)"
  by (simp add: orFail_def split: prod.splits option.splits)

lemma data_orFail [simp]: "w_data (snd (orFail p r)) = w_data (snd r)"
  by (simp add: orFail_def split: prod.splits option.splits)

lemma fst_orFail_remote [simp]:
  "fst (orFail p (remote c k w)) = None \<longleftrightarrow> errReply c (w_log w) k = None"
  by (simp add: orFail_def remote_def split: option.splits)

lemma emits_mono: "emits K f \<Longrightarrow> K \<subseteq> K' \<Longrightarrow> emits K' f"
  unfolding emits_def by blast

lemma emitsI: "(\<And>w. \<exists>xs. w_log (snd (f w)) = w_log w @ xs \<and> set (kinds xs) \<subseteq> K) \<Longrightarrow> emits K f"
  unfolding emits_def by blast

lemma emitsD: "emits K f \<Longrightarrow> \<exists>xs. w_log (snd (f w)) = w_log w @ xs \<and> set (kinds xs) \<subseteq> K"
  unfolding emits_def by blast

lemma emits_runSteps: "(\<And>s. s \<in> set ss \<Longrightarrow> emits K s) \<Longrightarrow> emits K (runSteps ss)"
proof (induction ss)
  case Nil
  show ?case by (rule emitsI) (simp add: kinds_def)
next
  case (Cons s ss)
  have s: "emits K s" and rest: "emits K (runSteps ss)"
    using Cons by simp_all
  show ?case
  proof (rule emitsI)
    fix w
    obtain r w1 where sw: "s w = (r, w1)" by (cases "s w")
    from emitsD [OF s, of w] sw obtain xs where
      xs: "w_log w1 = w_log w @ xs" "set (kinds xs) \<subseteq> K" by auto
    show "\<exists>xs. w_log (snd (runSteps (s # ss) w)) = w_log w @ xs \<and> set (kinds xs) \<subseteq> K"
    proof (cases r)
      case (Some e)
      with sw xs show ?thesis by simp
    next
      case None
      from emitsD [OF rest, of w1] obtain ys where
        ys: "w_log (snd (runSteps ss w1)) = w_log w1 @ ys" "set (kinds ys) \<subseteq> K" by auto
      with xs have "w_log (snd (runSteps ss w1)) = w_log w @ (xs @ ys)"
        and "set (kinds (xs @ ys)) \<subseteq> K"
        by (simp_all add: kinds_def)
      then have "w_log (snd (runSteps (s # ss) w)) = w_log w @ (xs @ ys)"
        using None sw by simp
      with \<open>set (kinds (xs @ ys)) \<subseteq> K\<close> show ?thesis by blast
    qed
  qed
qed

lemma emits_readRoles: "emits {KSetAdminRoles} (readRoles c)"
  by (rule emitsI) (simp add: readRoles_def kinds_def)

lemma emits_readGroups: "emits {KSetGroupUserMemberships} (readGroups c)"
  by (rule emitsI) (simp add: readGroups_def kinds_def)

lemma emits_read: "emits readKinds (resourceUserRead h c)"
proof (rule emitsI)
  fix w :: "'a world"
  have tl: "emits readKinds (runSteps [readRoles c, readGroups c])"
    by (rule emits_runSteps)
      (auto intro: emits_mono [OF emits_readRoles] emits_mono [OF emits_readGroups]
        simp: readKinds_def)
  show "\<exists>xs. w_log (snd (resourceUserRead h c w)) = w_log w @ xs \<and> set (kinds xs) \<subseteq> readKinds"
  proof (cases "userReply c (w_log w) (GetUser (rd_id (w_data w)))")
    case (Inl e)
    then show ?thesis
      by (simp add: resourceUserRead_def remoteUser_def suppressErrorOn404_def SetId_def
          kinds_def readKinds_def)
  next
    case (Inr user)
    let ?w2 = "Set_str ''raw_status'' (user_Status user)
                 (w\<lparr>w_log := w_log w @ [Remote (GetUser (rd_id (w_data w)))]\<rparr>)"
    have l2: "w_log ?w2 = w_log w @ [Remote (GetUser (rd_id (w_data w)))]"
      by (simp add: Set_str_def)
    show ?thesis
    proof (cases "setNonPrimitives h user (w_data ?w2)")
      case (Inl err)
      with Inr l2 show ?thesis
        by (simp add: resourceUserRead_def remoteUser_def kinds_def readKinds_def Let_def)
    next
      case (Inr d3)
      from emitsD [OF tl, of "?w2\<lparr>w_data := d3\<rparr>"] obtain ys where
        ys: "w_log (snd (runSteps [readRoles c, readGroups c] (?w2\<lparr>w_data := d3\<rparr>)))
               = w_log (?w2\<lparr>w_data := d3\<rparr>) @ ys" "set (kinds ys) \<subseteq> readKinds"
        by blast
      have "w_log (snd (resourceUserRead h c w))
              = w_log w @ (Remote (GetUser (rd_id (w_data w))) # ys)"
        using \<open>userReply c (w_log w) (GetUser (rd_id (w_data w))) = Inr user\<close> Inr ys(1) l2
        by (simp add: resourceUserRead_def remoteUser_def Let_def)
      moreover have "set (kinds (Remote (GetUser (rd_id (w_data w))) # ys)) \<subseteq> readKinds"
        using ys(2) by (simp add: kinds_def readKinds_def)
      ultimately show ?thesis by blast
    qed
  qed
qed

lemma read_log:
  "\<exists>ys. w_log (snd (resourceUserRead h c w))
           = w_log w @ Remote (GetUser (rd_id (w_data w))) # ys
        \<and> set (kinds ys) \<subseteq> readKinds"
proof -
  have tl: "emits readKinds (runSteps [readRoles c, readGroups c])"
    by (rule emits_runSteps)
      (auto intro: emits_mono [OF emits_readRoles] emits_mono [OF emits_readGroups]
        simp: readKinds_def)
  show ?thesis
  proof (cases "userReply c (w_log w) (GetUser (rd_id (w_data w)))")
    case (Inl e)
    then show ?thesis
      by (simp add: resourceUserRead_def remoteUser_def suppressErrorOn404_def SetId_def
          kinds_def readKinds_def)
  next
    case (Inr user)
    let ?w2 = "Set_str ''raw_status'' (user_Status user)
                 (w\<lparr>w_log := w_log w @ [Remote (GetUser (rd_id (w_data w)))]\<rparr>)"
    have l2: "w_log ?w2 = w_log w @ [Remote (GetUser (rd_id (w_data w)))]"
      by (simp add: Set_str_def)
    show ?thesis
    proof (cases "setNonPrimitives h user (w_data ?w2)")
      case (Inl err)
      with Inr l2 show ?thesis
        by (simp add: resourceUserRead_def remoteUser_def kinds_def readKinds_def Let_def)
    next
      case (Inr d3)
      from emitsD [OF tl, of "?w2\<lparr>w_data := d3\<rparr>"] obtain ys where
        ys: "w_log (snd (runSteps [readRoles c, readGroups c] (?w2\<lparr>w_data := d3\<rparr>)))
               = w_log (?w2\<lparr>w_data := d3\<rparr>) @ ys" "set (kinds ys) \<subseteq> readKinds"
        by (elim exE conjE)
      have "w_log (snd (resourceUserRead h c w))
              = w_log w @ Remote (GetUser (rd_id (w_data w))) # ys"
        using \<open>userReply c (w_log w) (GetUser (rd_id (w_data w))) = Inr user\<close> Inr ys(1) l2
        by (simp add: resourceUserRead_def remoteUser_def Let_def)
      with ys(2) show ?thesis by (intro exI conjI)
    qed
  qed
qed

lemma read_fetch_fails:
  assumes "userReply c (w_log w) (GetUser (rd_id (w_data w))) = Inl e" and "err_code e \<noteq> 404"
  shows "resourceUserRead h c w =
           (Some (''failed to get user: '' @ err_msg e),
            w\<lparr>w_log := w_log w @ [Remote (GetUser (rd_id (w_data w)))]\<rparr>)"
  using assms by (simp add: resourceUserRead_def remoteUser_def suppressErrorOn404_def)

subsection \<open>Delete\<close>

text \<open>
  C3. Deleting a user whose recorded status is DEPROVISIONED issues exactly one
  deactivate-or-delete call. With any other recorded status the call is issued twice
  when the first call succeeds, and only once (the delete then fails) when the first
  call fails.
\<close>

theorem delete_calls:
  "(Get (w_data w) ''status'' = ''DEPROVISIONED'' \<longrightarrow>
      w_log (snd (resourceUserDelete c w)) = w_log w @ [Remote (DeactivateOrDeleteUser (rd_id (w_data w)))])
   \<and> (Get (w_data w) ''status'' \<noteq> ''DEPROVISIONED'' \<longrightarrow>
        (errReply c (w_log w) (DeactivateOrDeleteUser (rd_id (w_data w))) = None \<longrightarrow>
           w_log (snd (resourceUserDelete c w))
             = w_log w @ [Remote (DeactivateOrDeleteUser (rd_id (w_data w))),
                          Remote (DeactivateOrDeleteUser (rd_id (w_data w)))])
        \<and> (errReply c (w_log w) (DeactivateOrDeleteUser (rd_id (w_data w))) \<noteq> None \<longrightarrow>
             w_log (snd (resourceUserDelete c w))
               = w_log w @ [Remote (DeactivateOrDeleteUser (rd_id (w_data w)))]
             \<and> fst (resourceUserDelete c w) \<noteq> None))"
  by (auto simp add: resourceUserDelete_def ensureUserDelete_def userStatusDeprovisioned_def
      remote_def numeral_2_eq_2 split: option.splits prod.splits)

theorem delete_calls_witness:
  "w_log (snd (resourceUserDelete okClient
       (exWorld ''00u1'' (exAttrs [(''status'', ''DEPROVISIONED'')]) (exAttrs [(''status'', ''DEPROVISIONED'')]))))
     = [Remote (DeactivateOrDeleteUser ''00u1'')]
   \<and> w_log (snd (resourceUserDelete okClient
       (exWorld ''00u1'' (exAttrs [(''status'', ''SUSPENDED'')]) (exAttrs [(''status'', ''SUSPENDED'')]))))
     = [Remote (DeactivateOrDeleteUser ''00u1''), Remote (DeactivateOrDeleteUser ''00u1'')]
   \<and> w_log (snd (resourceUserDelete failingClient
       (exWorld ''00u1'' (exAttrs [(''status'', ''SUSPENDED'')]) (exAttrs [(''status'', ''SUSPENDED'')]))))
     = [Remote (DeactivateOrDeleteUser ''00u1'')]"
  using
    delete_calls [of "exWorld ''00u1'' (exAttrs [(''status'', ''DEPROVISIONED'')]) (exAttrs [(''status'', ''DEPROVISIONED'')])" okClient]
    delete_calls [of "exWorld ''00u1'' (exAttrs [(''status'', ''SUSPENDED'')]) (exAttrs [(''status'', ''SUSPENDED'')])" okClient]
    delete_calls [of "exWorld ''00u1'' (exAttrs [(''status'', ''SUSPENDED'')]) (exAttrs [(''status'', ''SUSPENDED'')])" failingClient]
  by (simp add: ex_defs Get_def)

subsection \<open>Update\<close>

text \<open>
  C7. An update whose desired status is STAGED and whose status changed is rejected
  with the error message of the check; the log and the resource data are returned as
  they were, so no remote call is issued and the state is unchanged.
\<close>

theorem update_to_staged_rejected:
  "Get (w_data w) ''status'' = userStatusStaged \<Longrightarrow> HasChange (w_data w) ''status'' \<Longrightarrow>
   resourceUserUpdate h c w =
     (Some ''Okta will not allow a user to be updated to STAGED. Can set to STAGED on user creation only'', w)"
  by (simp add: resourceUserUpdate_def Let_def)

theorem update_to_staged_rejected_witness:
  "resourceUserUpdate exHelpers okClient
     (exWorld ''00u1'' (exAttrs [(''status'', ''ACTIVE'')]) (exAttrs [(''status'', ''STAGED'')]))
   = (Some ''Okta will not allow a user to be updated to STAGED. Can set to STAGED on user creation only'',
      exWorld ''00u1'' (exAttrs [(''status'', ''ACTIVE'')]) (exAttrs [(''status'', ''STAGED'')]))"
  using update_to_staged_rejected [of "exWorld ''00u1'' (exAttrs [(''status'', ''ACTIVE'')]) (exAttrs [(''status'', ''STAGED'')])" exHelpers okClient]
  by (simp add: ex_defs Get_def HasChange_def userStatusStaged_def)

subsection \<open>Create\<close>











text \<open>
  C6. A create with desired status STAGED, no admin roles, no group memberships and
  \<^verbatim>\<open>expire_password_on_create\<close> false issues one create call, with the activate
  parameter false. If the call fails, the create returns the error with the resource
  data as they were and nothing follows. If it returns a user, the next event is the
  write of that user's identifier, and the create continues as the final read run on
  the resource data with that identifier recorded: the read's fetch is issued for that
  identifier, and when the fetch fails (other than with a 404) the returned data are
  the original ones with the identifier set. Whatever follows belongs to the final read
  (fetch of the user, the listings of roles and groups, a cleared identifier when the
  user is gone): no second create call and no call that assigns roles or groups,
  changes the status or expires the password.
\<close>

theorem create_staged:
  assumes "Get (w_data w) ''status'' = userStatusStaged"
    and "admin_roles (rd_plan (w_data w)) = []"
    and "group_memberships (rd_plan (w_data w)) = []"
    and "\<not> expire_password_on_create (rd_plan (w_data w))"
  shows "\<exists>body rest.
           w_log (snd (resourceUserCreate h c w)) = w_log w @ Remote (CreateUser body (Some False)) # rest
           \<and> body = \<lparr>cur_Profile = populateUserProfile h (w_data w),
                      cur_Credentials = createCredentials (w_data w)\<rparr>
           \<and> set (kinds rest) \<subseteq> {KIdSet, KGetUser, KSetAdminRoles, KSetGroupUserMemberships}
           \<and> (case userReply c (w_log w) (CreateUser body (Some False)) of
                 Inl e \<Rightarrow>
                   rest = []
                   \<and> resourceUserCreate h c w =
                       (Some (''failed to create user: '' @ err_msg e),
                        w\<lparr>w_log := w_log w @ [Remote (CreateUser body (Some False))]\<rparr>)
               | Inr user \<Rightarrow>
                   take 1 rest = [IdSet (user_Id user)]
                   \<and> take 2 rest = [IdSet (user_Id user), Remote (GetUser (user_Id user))]
                   \<and> resourceUserCreate h c w =
                       resourceUserRead h c
                         \<lparr>w_data = (w_data w)\<lparr>rd_id := user_Id user\<rparr>,
                          w_log = w_log w @ [Remote (CreateUser body (Some False)),
                                             IdSet (user_Id user)]\<rparr>
                   \<and> (\<forall>e. userReply c
                             (w_log w @ [Remote (CreateUser body (Some False)), IdSet (user_Id user)])
                             (GetUser (user_Id user)) = Inl e
                           \<and> err_code e \<noteq> 404
                         \<longrightarrow> w_data (snd (resourceUserCreate h c w))
                               = (w_data w)\<lparr>rd_id := user_Id user\<rparr>
                             \<and> rd_id (w_data (snd (resourceUserCreate h c w))) = user_Id user))"
proof -
  let ?body = "\<lparr>cur_Profile = populateUserProfile h (w_data w),
                cur_Credentials = createCredentials (w_data w)\<rparr>"
  let ?K = "Remote (CreateUser ?body (Some False)) :: 'a event"
  have req: "createRequest h (w_data w) = CreateUser ?body (Some False)"
    using assms(1) by (simp add: createRequest_def Let_def)
  have "\<exists>rest. w_log (snd (resourceUserCreate h c w)) = w_log w @ ?K # rest
           \<and> set (kinds rest) \<subseteq> {KIdSet, KGetUser, KSetAdminRoles, KSetGroupUserMemberships}
           \<and> (case userReply c (w_log w) (CreateUser ?body (Some False)) of
                 Inl e \<Rightarrow>
                   rest = []
                   \<and> resourceUserCreate h c w =
                       (Some (''failed to create user: '' @ err_msg e),
                        w\<lparr>w_log := w_log w @ [?K]\<rparr>)
               | Inr user \<Rightarrow>
                   take 1 rest = [IdSet (user_Id user)]
                   \<and> take 2 rest = [IdSet (user_Id user), Remote (GetUser (user_Id user))]
                   \<and> resourceUserCreate h c w =
                       resourceUserRead h c
                         \<lparr>w_data = (w_data w)\<lparr>rd_id := user_Id user\<rparr>,
                          w_log = w_log w @ [?K, IdSet (user_Id user)]\<rparr>
                   \<and> (\<forall>e. userReply c (w_log w @ [?K, IdSet (user_Id user)])
                             (GetUser (user_Id user)) = Inl e
                           \<and> err_code e \<noteq> 404
                         \<longrightarrow> w_data (snd (resourceUserCreate h c w))
                               = (w_data w)\<lparr>rd_id := user_Id user\<rparr>
                             \<and> rd_id (w_data (snd (resourceUserCreate h c w))) = user_Id user))"
  proof (cases "userReply c (w_log w) (CreateUser ?body (Some False))")
    case (Inl e)
    then have run: "resourceUserCreate h c w =
        (Some (''failed to create user: '' @ err_msg e), w\<lparr>w_log := w_log w @ [?K]\<rparr>)"
      by (simp add: resourceUserCreate_def remoteUser_def req)
    have "w_log (snd (resourceUserCreate h c w)) = w_log w @ ?K # []"
      unfolding run by simp
    moreover have "set (kinds ([]::'a event list))
        \<subseteq> {KIdSet, KGetUser, KSetAdminRoles, KSetGroupUserMemberships}"
      by (simp add: kinds_def)
    ultimately show ?thesis using Inl run by (intro exI [of _ "[]"]) simp
  next
    case (Inr user)
    let ?w1 = "SetId (user_Id user) (w\<lparr>w_log := w_log w @ [?K]\<rparr>)"
    let ?w1' = "\<lparr>w_data = (w_data w)\<lparr>rd_id := user_Id user\<rparr>,
                 w_log = w_log w @ [?K, IdSet (user_Id user)]\<rparr> :: 'a world"
    have w1: "?w1 = ?w1'" by (simp add: SetId_def)
    have d1: "rd_plan (w_data ?w1) = rd_plan (w_data w)"
      by (simp add: SetId_def)
    have skip: "runSteps
            [createRoles c (user_Id user), createGroups c (user_Id user),
             createStatus c (user_Id user), createExpire c (user_Id user),
             resourceUserRead h c] ?w1 = resourceUserRead h c ?w1"
      using assms d1
      by (simp add: createRoles_def createGroups_def createStatus_def createExpire_def Get_def
          userStatusStaged_def userStatusSuspended_def userStatusDeprovisioned_def
          split: prod.splits option.splits)
    have run: "resourceUserCreate h c w = resourceUserRead h c ?w1'"
      using Inr skip unfolding w1 by (simp add: resourceUserCreate_def remoteUser_def req w1)
    from read_log [of h c ?w1'] obtain ys where
      ys: "w_log (snd (resourceUserRead h c ?w1'))
             = w_log ?w1' @ Remote (GetUser (rd_id (w_data ?w1'))) # ys"
        "set (kinds ys) \<subseteq> readKinds"
      by (elim exE conjE)
    let ?rest = "IdSet (user_Id user) # Remote (GetUser (user_Id user)) # ys"
    have lg: "w_log (snd (resourceUserCreate h c w)) = w_log w @ ?K # ?rest"
      unfolding run using ys(1) by simp
    have kd: "set (kinds ?rest) \<subseteq> {KIdSet, KGetUser, KSetAdminRoles, KSetGroupUserMemberships}"
      using ys(2) by (auto simp add: kinds_def readKinds_def)
    have fail: "\<forall>e. userReply c (w_log w @ [?K, IdSet (user_Id user)])
                             (GetUser (user_Id user)) = Inl e
                           \<and> err_code e \<noteq> 404
                         \<longrightarrow> w_data (snd (resourceUserCreate h c w))
                               = (w_data w)\<lparr>rd_id := user_Id user\<rparr>
                             \<and> rd_id (w_data (snd (resourceUserCreate h c w))) = user_Id user"
    proof (intro allI impI)
      fix e
      assume a: "userReply c (w_log w @ [?K, IdSet (user_Id user)]) (GetUser (user_Id user)) = Inl e
                   \<and> err_code e \<noteq> 404"
      have "resourceUserRead h c ?w1' =
              (Some (''failed to get user: '' @ err_msg e),
               ?w1'\<lparr>w_log := w_log ?w1' @ [Remote (GetUser (rd_id (w_data ?w1')))]\<rparr>)"
        by (rule read_fetch_fails) (use a in simp_all)
      then show "w_data (snd (resourceUserCreate h c w)) = (w_data w)\<lparr>rd_id := user_Id user\<rparr>
                   \<and> rd_id (w_data (snd (resourceUserCreate h c w))) = user_Id user"
        unfolding run by simp
    qed
    show ?thesis
      using Inr lg kd run fail by (intro exI [of _ ?rest]) simp
  qed
  then show ?thesis by (intro exI [of _ ?body]) simp
qed

theorem create_staged_witness:
  "resourceUserCreate exHelpers okClient
       (exWorld [] (exAttrs []) (exAttrs [(''status'', ''STAGED''), (''login'', ''a@b.com'')]))
   = (None,
      \<lparr>w_data =
         \<lparr>rd_id = ''00u1'', rd_state = exAttrs [],
          rd_plan = (exAttrs [(''status'', ''STAGED''), (''login'', ''a@b.com'')])
            \<lparr>strs := (strs (exAttrs [(''status'', ''STAGED''), (''login'', ''a@b.com'')]))
                       (''raw_status'' := ''ACTIVE'')\<rparr>\<rparr>,
       w_log =
         [Remote (CreateUser
            \<lparr>cur_Profile = ''a@b.com'',
             cur_Credentials =
               \<lparr>uc_Password = Some \<lparr>pc_Value = [], pc_Hash = None, pc_Hook = None\<rparr>,
                uc_RecoveryQuestion = None\<rparr>\<rparr> (Some False)),
          IdSet ''00u1'', Remote (GetUser ''00u1''), Remote (SetAdminRoles ''00u1'')]\<rparr>)
   \<and> resourceUserCreate exHelpers
        (okClient\<lparr>userReply :=
           (\<lambda>log k. case k of
                       GetUser uid \<Rightarrow> Inl \<lparr>err_code = 500, err_msg = ''Internal Server Error''\<rparr>
                     | _ \<Rightarrow> Inr exUser)\<rparr>)
       (exWorld [] (exAttrs []) (exAttrs [(''status'', ''STAGED''), (''login'', ''a@b.com'')]))
   = (Some ''failed to get user: Internal Server Error'',
      \<lparr>w_data =
         \<lparr>rd_id = ''00u1'', rd_state = exAttrs [],
          rd_plan = exAttrs [(''status'', ''STAGED''), (''login'', ''a@b.com'')]\<rparr>,
       w_log =
         [Remote (CreateUser
            \<lparr>cur_Profile = ''a@b.com'',
             cur_Credentials =
               \<lparr>uc_Password = Some \<lparr>pc_Value = [], pc_Hash = None, pc_Hook = None\<rparr>,
                uc_RecoveryQuestion = None\<rparr>\<rparr> (Some False)),
          IdSet ''00u1'', Remote (GetUser ''00u1'')]\<rparr>)"
  using create_staged [of "exWorld [] (exAttrs []) (exAttrs [(''status'', ''STAGED''), (''login'', ''a@b.com'')])"
      exHelpers okClient]
    create_staged [of "exWorld [] (exAttrs []) (exAttrs [(''status'', ''STAGED''), (''login'', ''a@b.com'')])"
      exHelpers "okClient\<lparr>userReply :=
           (\<lambda>log k. case k of
                       GetUser uid \<Rightarrow> Inl \<lparr>err_code = 500, err_msg = ''Internal Server Error''\<rparr>
                     | _ \<Rightarrow> Inr exUser)\<rparr>"]
  by (simp add: ex_defs run_defs)

subsection \<open>Validation of the credential attributes\<close>

lemma validate_none:
  assumes "k \<noteq> ''password_inline_hook''"
  shows "validateConflictingAttributes configured k = None"
proof -
  have "ConflictsWith k = []"
    unfolding ConflictsWith_def using assms by (rule if_not_P)
  then show ?thesis by (simp add: validateConflictingAttributes_def)
qed

lemma validate_hook:
  "validateConflictingAttributes configured ''password_inline_hook'' = None
     \<longleftrightarrow> ''password'' \<notin> set configured \<and> ''password_hash'' \<notin> set configured"
  by (simp add: validateConflictingAttributes_def ConflictsWith_def split: list.splits)

lemma validateUserConfig_empty:
  "validateUserConfig configured = [] \<longleftrightarrow>
     \<not> (''password_inline_hook'' \<in> set configured
        \<and> (''password'' \<in> set configured \<or> ''password_hash'' \<in> set configured))"
proof -
  define hk where "hk = ''password_inline_hook''"
  define ok where "ok = (''password'' \<notin> set configured \<and> ''password_hash'' \<notin> set configured)"
  have none: "validateConflictingAttributes configured k = None" if "k \<noteq> hk" for k
    using that unfolding hk_def by (rule validate_none)
  have hook: "validateConflictingAttributes configured hk = None \<longleftrightarrow> ok"
    unfolding hk_def ok_def by (rule validate_hook)
  have "validateUserConfig configured = [] \<longleftrightarrow>
          (\<forall>k \<in> set configured. validateConflictingAttributes configured k = None)"
    by (auto simp add: validateUserConfig_def List.map_filter_def filter_empty_conv)
  also have "\<dots> \<longleftrightarrow> (hk \<in> set configured \<longrightarrow> validateConflictingAttributes configured hk = None)"
  proof
    assume "\<forall>k \<in> set configured. validateConflictingAttributes configured k = None"
    then show "hk \<in> set configured \<longrightarrow> validateConflictingAttributes configured hk = None"
      by (rule_tac impI) (erule bspec)
  next
    assume h: "hk \<in> set configured \<longrightarrow> validateConflictingAttributes configured hk = None"
    show "\<forall>k \<in> set configured. validateConflictingAttributes configured k = None"
    proof
      fix k
      assume k: "k \<in> set configured"
      show "validateConflictingAttributes configured k = None"
      proof (cases "k = hk")
        case True
        with h k show ?thesis by (simp only:)
      next
        case False
        then show ?thesis by (rule none)
      qed
    qed
  qed
  also have "\<dots> \<longleftrightarrow> \<not> (hk \<in> set configured \<and> \<not> ok)"
    using hook by blast
  finally show ?thesis
    unfolding hk_def ok_def by blast
qed

text \<open>
  C2. Supplying \<^verbatim>\<open>password_inline_hook\<close> together with \<^verbatim>\<open>password\<close> or
  \<^verbatim>\<open>password_hash\<close> fails validation, and the create is not run: the log and the
  data are unchanged. A configuration without \<^verbatim>\<open>password_inline_hook\<close> passes this
  validation, also when it sets both \<^verbatim>\<open>password\<close> and \<^verbatim>\<open>password_hash\<close>.
\<close>

theorem hook_conflicts:
  "(''password_inline_hook'' \<in> set configured
      \<and> (''password'' \<in> set configured \<or> ''password_hash'' \<in> set configured)
     \<longrightarrow> validateUserConfig configured \<noteq> []
         \<and> (\<exists>e. validatedCreate h c configured w = (Some e, w)))
   \<and> (''password_inline_hook'' \<notin> set configured
     \<longrightarrow> validateUserConfig configured = []
         \<and> validatedCreate h c configured w = resourceUserCreate h c w)"
proof -
  define bad where "bad = (''password_inline_hook'' \<in> set configured
      \<and> (''password'' \<in> set configured \<or> ''password_hash'' \<in> set configured))"
  define hookset where "hookset = (''password_inline_hook'' \<in> set configured)"
  have e: "validateUserConfig configured = [] \<longleftrightarrow> \<not> bad"
    unfolding bad_def by (rule validateUserConfig_empty)
  have imp: "\<not> hookset \<Longrightarrow> \<not> bad"
    unfolding bad_def hookset_def by blast
  have a: "bad \<longrightarrow> validateUserConfig configured \<noteq> []
         \<and> (\<exists>e. validatedCreate h c configured w = (Some e, w))"
    using e by (cases "validateUserConfig configured") (simp_all add: validatedCreate_def)
  have b: "\<not> hookset \<longrightarrow> validateUserConfig configured = []
         \<and> validatedCreate h c configured w = resourceUserCreate h c w"
    using e imp by (cases "validateUserConfig configured") (auto simp add: validatedCreate_def)
  from a b show ?thesis unfolding bad_def hookset_def by (rule conjI)
qed


theorem hook_conflicts_witness:
  "validateUserConfig [''password'', ''password_inline_hook'']
     = [''password_inline_hook: conflicts with password'']
   \<and> validatedCreate exHelpers okClient [''password'', ''password_inline_hook'']
        (exWorld [] (exAttrs []) (exAttrs [(''password'', ''secret''), (''password_inline_hook'', ''default'')]))
     = (Some ''password_inline_hook: conflicts with password'',
        exWorld [] (exAttrs []) (exAttrs [(''password'', ''secret''), (''password_inline_hook'', ''default'')]))
   \<and> validateUserConfig [''login'', ''password''] = []"
  using hook_conflicts [of "[''password'', ''password_inline_hook'']" exHelpers okClient
      "exWorld [] (exAttrs []) (exAttrs [(''password'', ''secret''), (''password_inline_hook'', ''default'')])"]
    hook_conflicts [of "[''login'', ''password'']" exHelpers okClient
      "exWorld [] (exAttrs []) (exAttrs [(''password'', ''secret''), (''password_inline_hook'', ''default'')])"]
  by (simp add: validateUserConfig_def List.map_filter_def validateConflictingAttributes_def
      ConflictsWith_def validatedCreate_def)

text \<open>The claim as stated fails: a password together with a password hash is accepted.\<close>

theorem password_with_hash_counterexample:
  "validateUserConfig [''password'', ''password_hash''] = []"
  by (simp add: validateUserConfig_def List.map_filter_def validateConflictingAttributes_def
      ConflictsWith_def)

subsection \<open>The role step of an update\<close>

lemma removeRoles_log:
  "\<exists>issued rest.
     filter (\<lambda>r. role_Type r \<in> set R) roles = issued @ rest
     \<and> w_log (snd (removeRoles c R roles w))
         = w_log w @ map (\<lambda>r. Remote (RemoveRoleFromUser (rd_id (w_data w)) (role_Id r))) issued
     \<and> w_data (snd (removeRoles c R roles w)) = w_data w
     \<and> (fst (removeRoles c R roles w) = None \<longrightarrow> rest = [])
     \<and> (removalsBenign c (rd_id (w_data w)) \<longrightarrow> fst (removeRoles c R roles w) = None)"
proof (induction roles arbitrary: w)
  case Nil
  show ?case by (rule exI [of _ "[]"], rule exI [of _ "[]"]) simp
next
  case (Cons r roles)
  let ?uid = "rd_id (w_data w)"
  let ?ev = "\<lambda>r. Remote (RemoveRoleFromUser ?uid (role_Id r)) :: 'a event"
  show ?case
  proof (cases "role_Type r \<in> set R")
    case False
    have run: "removeRoles c R (r # roles) w = removeRoles c R roles w"
      using False by (simp add: contains_def)
    have flt: "filter (\<lambda>r. role_Type r \<in> set R) (r # roles)
                 = filter (\<lambda>r. role_Type r \<in> set R) roles"
      using False by simp
    show ?thesis unfolding run flt by (rule Cons.IH)
  next
    case True
    let ?k = "RemoveRoleFromUser ?uid (role_Id r) :: 'a call"
    let ?w1 = "w\<lparr>w_log := w_log w @ [Remote ?k]\<rparr>"
    have flt: "filter (\<lambda>r. role_Type r \<in> set R) (r # roles)
                 = r # filter (\<lambda>r. role_Type r \<in> set R) roles"
      using True by simp
    show ?thesis
    proof (cases "suppressErrorOn404 (errReply c (w_log w) ?k)")
      case (Some e)
      have run: "removeRoles c R (r # roles) w = (Some (''failed to remove user's role: '' @ err_msg e), ?w1)"
        using True Some by (simp add: contains_def remote_def)
      have nb: "\<not> removalsBenign c ?uid"
      proof
        assume "removalsBenign c ?uid"
        then have "case errReply c (w_log w) ?k of None \<Rightarrow> True | Some e \<Rightarrow> err_code e = 404"
          unfolding removalsBenign_def by (elim allE)
        with Some show False
          by (simp add: suppressErrorOn404_def split: option.splits if_splits)
      qed
      show ?thesis
        unfolding run flt
        by (rule exI [of _ "[r]"], rule exI [of _ "filter (\<lambda>r. role_Type r \<in> set R) roles"])
          (simp add: nb)
    next
      case None
      have run: "removeRoles c R (r # roles) w = removeRoles c R roles ?w1"
        using True None by (simp add: contains_def remote_def)
      have d1: "w_data ?w1 = w_data w" by simp
      from Cons.IH [of ?w1] obtain issued rest where
        ih: "filter (\<lambda>r. role_Type r \<in> set R) roles = issued @ rest"
        "w_log (snd (removeRoles c R roles ?w1)) = w_log ?w1 @ map ?ev issued"
        "w_data (snd (removeRoles c R roles ?w1)) = w_data w"
        "fst (removeRoles c R roles ?w1) = None \<longrightarrow> rest = []"
        "removalsBenign c ?uid \<longrightarrow> fst (removeRoles c R roles ?w1) = None"
        unfolding d1 by (elim exE conjE)
      show ?thesis
        unfolding run flt
        by (rule exI [of _ "r # issued"], rule exI [of _ rest]) (insert ih, simp)
    qed
  qed
qed

lemma updRoles_log:
  fixes w :: "'a world"
  defines "uid \<equiv> rd_id (w_data w)"
    and "old \<equiv> admin_roles (rd_state (w_data w))"
    and "new \<equiv> admin_roles (rd_plan (w_data w))"
  shows "case rolesReply c (w_log w) (ListUserOnlyRoles uid) of
           Inl e \<Rightarrow>
             w_log (snd (updRoles c True w)) = w_log w @ [Remote (ListUserOnlyRoles uid)]
             \<and> fst (updRoles c True w) \<noteq> None
         | Inr fetched \<Rightarrow>
             (\<exists>ev cut.
                ev @ cut = expectedRoleCalls uid (Difference old new) (Difference new old) fetched
                \<and> ev \<noteq> []
                \<and> w_log (snd (updRoles c True w)) = w_log w @ ev
                \<and> (cut \<noteq> [] \<longrightarrow> fst (updRoles c True w) \<noteq> None)
                \<and> (removalsBenign c uid \<longrightarrow> cut = []))"
proof (cases "rolesReply c (w_log w) (ListUserOnlyRoles uid)")
  case (Inl e)
  then show ?thesis
    by (simp add: updRoles_def GetChangeSet_def remoteRoles_def uid_def Let_def)
next
  case (Inr fetched)
  let ?L = "Remote (ListUserOnlyRoles uid) :: 'a event"
  let ?w1 = "w\<lparr>w_log := w_log w @ [?L]\<rparr>"
  let ?R = "Difference old new"
  let ?A = "Remote (AssignAdminRolesToUser uid (Difference new old) False) :: 'a event"
  let ?evf = "\<lambda>r. Remote (RemoveRoleFromUser uid (role_Id r)) :: 'a event"
  have d1: "rd_id (w_data ?w1) = uid" by (simp add: uid_def)
  from removeRoles_log [of ?R fetched c ?w1] obtain issued rest where
    rr: "filter (\<lambda>r. role_Type r \<in> set ?R) fetched = issued @ rest"
      "w_log (snd (removeRoles c ?R fetched ?w1)) = w_log ?w1 @ map ?evf issued"
      "w_data (snd (removeRoles c ?R fetched ?w1)) = w_data ?w1"
      "fst (removeRoles c ?R fetched ?w1) = None \<longrightarrow> rest = []"
      "removalsBenign c uid \<longrightarrow> fst (removeRoles c ?R fetched ?w1) = None"
    unfolding d1 by (elim exE conjE)
  obtain r2 w2 where run2: "removeRoles c ?R fetched ?w1 = (r2, w2)"
    by (cases "removeRoles c ?R fetched ?w1")
  have w2: "w_log w2 = w_log w @ ?L # map ?evf issued" "rd_id (w_data w2) = uid"
    using rr(2,3) run2 by (simp_all add: uid_def)
  have expd: "expectedRoleCalls uid ?R (Difference new old) fetched
                = ?L # map ?evf issued @ map ?evf rest @ [?A]"
    by (simp add: expectedRoleCalls_def rr(1))
  have unf: "updRoles c True w =
      (case r2 of Some err \<Rightarrow> (Some err, w2)
       | None \<Rightarrow> orFail [] (remote c (AssignAdminRolesToUser uid (Difference new old) False) w2))"
    using Inr run2 w2(2)
    by (simp add: updRoles_def GetChangeSet_def remoteRoles_def uid_def old_def new_def Let_def
        split: option.splits)
  show ?thesis
  proof (cases r2)
    case (Some err)
    have nb: "\<not> removalsBenign c uid"
      using rr(5) run2 Some by auto
    have "(?L # map ?evf issued) @ (map ?evf rest @ [?A])
            = expectedRoleCalls uid ?R (Difference new old) fetched
          \<and> ?L # map ?evf issued \<noteq> []
          \<and> w_log (snd (updRoles c True w)) = w_log w @ (?L # map ?evf issued)
          \<and> (map ?evf rest @ [?A] \<noteq> [] \<longrightarrow> fst (updRoles c True w) \<noteq> None)
          \<and> (removalsBenign c uid \<longrightarrow> map ?evf rest @ [?A] = [])"
      using Some nb w2(1) by (simp add: unf expd)
    then have "\<exists>ev cut.
                ev @ cut = expectedRoleCalls uid ?R (Difference new old) fetched
                \<and> ev \<noteq> []
                \<and> w_log (snd (updRoles c True w)) = w_log w @ ev
                \<and> (cut \<noteq> [] \<longrightarrow> fst (updRoles c True w) \<noteq> None)
                \<and> (removalsBenign c uid \<longrightarrow> cut = [])"
      by (intro exI)
    with Inr show ?thesis by simp
  next
    case None
    have rest: "rest = []" using rr(4) run2 None by simp
    have "(?L # map ?evf issued @ [?A]) @ []
            = expectedRoleCalls uid ?R (Difference new old) fetched
          \<and> ?L # map ?evf issued @ [?A] \<noteq> []
          \<and> w_log (snd (updRoles c True w)) = w_log w @ (?L # map ?evf issued @ [?A])
          \<and> (([]::'a event list) \<noteq> [] \<longrightarrow> fst (updRoles c True w) \<noteq> None)
          \<and> (removalsBenign c uid \<longrightarrow> ([]::'a event list) = [])"
      using None w2(1) by (simp add: unf expd rest)
    then have "\<exists>ev cut.
                ev @ cut = expectedRoleCalls uid ?R (Difference new old) fetched
                \<and> ev \<noteq> []
                \<and> w_log (snd (updRoles c True w)) = w_log w @ ev
                \<and> (cut \<noteq> [] \<longrightarrow> fst (updRoles c True w) \<noteq> None)
                \<and> (removalsBenign c uid \<longrightarrow> cut = [])"
      by (intro exI)
    with Inr show ?thesis by simp
  qed
qed

lemma runSteps_append:
  "runSteps (xs @ ys) w =
     (case runSteps xs w of (Some e, w1) \<Rightarrow> (Some e, w1) | (None, w1) \<Rightarrow> runSteps ys w1)"
  by (induction xs arbitrary: w) (auto split: prod.splits option.splits)

lemma roleView_runSteps:
  "(\<And>s w. s \<in> set ss \<Longrightarrow> roleView (w_data (snd (s w))) = roleView (w_data w))
   \<Longrightarrow> roleView (w_data (snd (runSteps ss w))) = roleView (w_data w)"
proof (induction ss arbitrary: w)
  case Nil
  show ?case by simp
next
  case (Cons s ss)
  obtain r w1 where sw: "s w = (r, w1)" by (cases "s w")
  have v1: "roleView (w_data w1) = roleView (w_data w)"
    using Cons.prems [of s w] sw by simp
  show ?case
  proof (cases r)
    case (Some e)
    with sw v1 show ?thesis by simp
  next
    case None
    have "roleView (w_data (snd (runSteps ss w1))) = roleView (w_data w1)"
      by (rule Cons.IH) (simp add: Cons.prems)
    with None sw v1 show ?thesis by simp
  qed
qed

lemma emits_updPasswordCheck: "emits {KGetUser} (updPasswordCheck c b)"
  by (rule emitsI)
    (simp add: updPasswordCheck_def remoteUser_def kinds_def split: sum.splits)

lemma emits_updStatus: "emits {KUpdateUserStatus} (updStatus c b st)"
  by (rule emitsI)
    (simp add: updStatus_def remote_def Set_str_def kinds_def split: option.splits)

lemma emits_updDeprovisionedCheck: "emits {} (updDeprovisionedCheck st b)"
  by (rule emitsI) (simp add: updDeprovisionedCheck_def kinds_def)

lemma emits_updProfile: "emits {KUpdateUser} (updProfile h c b1 b2 b3)"
  by (rule emitsI) (simp add: updProfile_def kinds_def)

lemma emits_updGroups: "emits {KAddUserToGroups, KRemoveUserFromGroups} (updGroups c b)"
  by (rule emitsI)
    (simp add: updGroups_def GetChangeSet_def orFail_def remote_def kinds_def Let_def
      split: option.splits)

lemma emits_updPassword: "emits {KChangePassword, KUpdateUser} (updPassword c b)"
  by (rule emitsI) (simp add: updPassword_def GetOk_def kinds_def Let_def)

lemma emits_updRecovery: "emits {KChangeRecoveryQuestion} (updRecovery c b)"
  by (rule emitsI) (simp add: updRecovery_def kinds_def)

lemma view_updPasswordCheck:
  "roleView (w_data (snd (updPasswordCheck c b w))) = roleView (w_data w)"
  by (simp add: updPasswordCheck_def remoteUser_def split: sum.splits)

lemma view_updStatus:
  "roleView (w_data (snd (updStatus c b st w))) = roleView (w_data w)"
  by (simp add: updStatus_def remote_def Set_str_def roleView_def split: option.splits)

lemma view_updDeprovisionedCheck:
  "roleView (w_data (snd (updDeprovisionedCheck st b w))) = roleView (w_data w)"
  by (simp add: updDeprovisionedCheck_def)

lemma view_updProfile:
  "roleView (w_data (snd (updProfile h c b1 b2 b3 w))) = roleView (w_data w)"
  by (simp add: updProfile_def)

lemma emits_updBefore:
  "emits {KGetUser, KUpdateUserStatus, KUpdateUser}
     (runSteps [updPasswordCheck c b1, updStatus c b2 st, updDeprovisionedCheck st b3,
                updProfile h c b3 b4 b5])"
  by (rule emits_runSteps)
    (auto intro: emits_mono [OF emits_updPasswordCheck] emits_mono [OF emits_updStatus]
      emits_mono [OF emits_updDeprovisionedCheck] emits_mono [OF emits_updProfile])

lemma view_updBefore:
  "roleView (w_data (snd (runSteps [updPasswordCheck c b1, updStatus c b2 st,
       updDeprovisionedCheck st b3, updProfile h c b3 b4 b5] w))) = roleView (w_data w)"
  by (rule roleView_runSteps)
    (auto simp add: view_updPasswordCheck view_updStatus view_updDeprovisionedCheck
      view_updProfile)

lemma emits_updAfter:
  "emits ({KAddUserToGroups, KRemoveUserFromGroups, KChangePassword, KUpdateUser,
           KChangeRecoveryQuestion} \<union> readKinds)
     (runSteps [updGroups c b1, updPassword c b2, updRecovery c b3, resourceUserRead h c])"
  by (rule emits_runSteps)
    (auto intro: emits_mono [OF emits_updGroups] emits_mono [OF emits_updPassword]
      emits_mono [OF emits_updRecovery] emits_mono [OF emits_read])

lemma no_roleKinds_before:
  "set (kinds xs) \<subseteq> {KGetUser, KUpdateUserStatus, KUpdateUser} \<Longrightarrow> set (kinds xs) \<inter> roleKinds = {}"
  by (auto simp add: roleKinds_def)

lemma no_roleKinds_after:
  "set (kinds xs) \<subseteq> {KAddUserToGroups, KRemoveUserFromGroups, KChangePassword, KUpdateUser,
           KChangeRecoveryQuestion} \<union> readKinds \<Longrightarrow> set (kinds xs) \<inter> roleKinds = {}"
  by (auto simp add: roleKinds_def readKinds_def)

text \<open>
  C9. In an update whose role membership changed, the log splits into what precedes the
  role step, the role step, and what follows it; the parts before and after hold no role
  call. The role step is empty when the update ended earlier, is the listing alone when
  the listing failed, and otherwise is a non-empty prefix of: the listing, one removal
  for every role of the list just fetched whose type is in the removal delta (recorded
  minus planned), then the one call adding the roles of the addition delta (planned
  minus recorded). So every removal precedes the addition, and a role is removed only
  if it is in the fetched list and its type is in the removal delta. When every reply
  to a removal is a success or a 404, the step is never cut short; and an update that
  returns no error has issued the whole sequence.
\<close>

theorem update_roles:
  fixes w :: "'a world"
  assumes chg: "HasChangeSet admin_roles (w_data w)"
  shows "\<exists>pre ev post.
           w_log (snd (resourceUserUpdate h c w)) = w_log w @ pre @ ev @ post
           \<and> set (kinds pre) \<inter> roleKinds = {}
           \<and> set (kinds post) \<inter> roleKinds = {}
           \<and> (ev = [] \<and> post = []
              \<or> (\<exists>e. rolesReply c (w_log w @ pre) (ListUserOnlyRoles (rd_id (w_data w))) = Inl e
                     \<and> ev = [Remote (ListUserOnlyRoles (rd_id (w_data w)))] \<and> post = [])
              \<or> (\<exists>fetched cut.
                     rolesReply c (w_log w @ pre) (ListUserOnlyRoles (rd_id (w_data w))) = Inr fetched
                     \<and> ev @ cut = expectedRoleCalls (rd_id (w_data w))
                          (Difference (admin_roles (rd_state (w_data w))) (admin_roles (rd_plan (w_data w))))
                          (Difference (admin_roles (rd_plan (w_data w))) (admin_roles (rd_state (w_data w))))
                          fetched
                     \<and> ev \<noteq> []
                     \<and> (cut \<noteq> [] \<longrightarrow> post = [])
                     \<and> (removalsBenign c (rd_id (w_data w)) \<longrightarrow> cut = [])))
           \<and> (fst (resourceUserUpdate h c w) = None \<longrightarrow>
                (\<exists>fetched.
                   rolesReply c (w_log w @ pre) (ListUserOnlyRoles (rd_id (w_data w))) = Inr fetched
                   \<and> ev = expectedRoleCalls (rd_id (w_data w))
                          (Difference (admin_roles (rd_state (w_data w))) (admin_roles (rd_plan (w_data w))))
                          (Difference (admin_roles (rd_plan (w_data w))) (admin_roles (rd_state (w_data w))))
                          fetched))"
  (is "\<exists>pre ev post. ?P pre ev post")
proof -
  define uid where "uid = rd_id (w_data w)"
  define old where "old = admin_roles (rd_state (w_data w))"
  define new where "new = admin_roles (rd_plan (w_data w))"
  define L :: "'a call" where "L = ListUserOnlyRoles uid"
  define res where "res = resourceUserUpdate h c w"
  define status where "status = Get (w_data w) ''status''"
  define staged where "staged = (status = userStatusStaged \<and> HasChange (w_data w) ''status'')"
  define A where "A = [updPasswordCheck c (HasChange (w_data w) ''password''),
      updStatus c (HasChange (w_data w) ''status'') status,
      updDeprovisionedCheck status (hasProfileChange (w_data w)),
      updProfile h c (hasProfileChange (w_data w)) (HasChangeSet password_hash (w_data w))
        (HasChange (w_data w) ''password_inline_hook'')]"
  define B where "B = [updGroups c (HasChangeSet group_memberships (w_data w)),
      updPassword c (HasChange (w_data w) ''password''),
      updRecovery c (HasChange (w_data w) ''recovery_question'' \<or> HasChange (w_data w) ''recovery_answer''),
      resourceUserRead h c]"
  have P_def: "?P pre ev post \<longleftrightarrow>
      (w_log (snd res) = w_log w @ pre @ ev @ post
       \<and> set (kinds pre) \<inter> roleKinds = {}
       \<and> set (kinds post) \<inter> roleKinds = {}
       \<and> (ev = [] \<and> post = []
          \<or> (\<exists>e. rolesReply c (w_log w @ pre) L = Inl e \<and> ev = [Remote L] \<and> post = [])
          \<or> (\<exists>fetched cut.
                 rolesReply c (w_log w @ pre) L = Inr fetched
                 \<and> ev @ cut = expectedRoleCalls uid (Difference old new) (Difference new old) fetched
                 \<and> ev \<noteq> []
                 \<and> (cut \<noteq> [] \<longrightarrow> post = [])
                 \<and> (removalsBenign c uid \<longrightarrow> cut = [])))
       \<and> (fst res = None \<longrightarrow>
            (\<exists>fetched. rolesReply c (w_log w @ pre) L = Inr fetched
               \<and> ev = expectedRoleCalls uid (Difference old new) (Difference new old) fetched)))"
    for pre ev post
    unfolding uid_def old_def new_def L_def res_def by (rule refl)
  show ?thesis
  proof (cases staged)
    case True
    then have "res = (Some ''Okta will not allow a user to be updated to STAGED. Can set to STAGED on user creation only'', w)"
      unfolding res_def staged_def status_def by (simp add: resourceUserUpdate_def Let_def)
    then have "?P [] [] []"
      unfolding P_def by (simp add: kinds_def)
    then show ?thesis by (intro exI)
  next
    case False
    have ns: "\<not> (Get (w_data w) ''status'' = userStatusStaged \<and> HasChange (w_data w) ''status'')"
      using False unfolding staged_def status_def .
    have "res = runSteps
                 [updPasswordCheck c (HasChange (w_data w) ''password''),
                  updStatus c (HasChange (w_data w) ''status'') (Get (w_data w) ''status''),
                  updDeprovisionedCheck (Get (w_data w) ''status'') (hasProfileChange (w_data w)),
                  updProfile h c (hasProfileChange (w_data w))
                    (HasChangeSet password_hash (w_data w))
                    (HasChange (w_data w) ''password_inline_hook''),
                  updRoles c (HasChangeSet admin_roles (w_data w)),
                  updGroups c (HasChangeSet group_memberships (w_data w)),
                  updPassword c (HasChange (w_data w) ''password''),
                  updRecovery c (HasChange (w_data w) ''recovery_question''
                                 \<or> HasChange (w_data w) ''recovery_answer''),
                  resourceUserRead h c] w"
      unfolding res_def resourceUserUpdate_def Let_def by (simp only: ns if_False)
    then have res: "res = runSteps (A @ updRoles c True # B) w"
      using chg by (simp add: A_def B_def status_def del: runSteps.simps)
    obtain r1 w1 where a: "runSteps A w = (r1, w1)" by (cases "runSteps A w")
    have eA: "emits {KGetUser, KUpdateUserStatus, KUpdateUser} (runSteps A)"
      unfolding A_def by (rule emits_updBefore)
    have "\<exists>xs. w_log w1 = w_log w @ xs
            \<and> set (kinds xs) \<subseteq> {KGetUser, KUpdateUserStatus, KUpdateUser}"
      using emitsD [OF eA, of w] unfolding a snd_conv .
    then obtain pre where
      pre: "w_log w1 = w_log w @ pre" "set (kinds pre) \<subseteq> {KGetUser, KUpdateUserStatus, KUpdateUser}"
      by (elim exE conjE)
    have pre_no: "set (kinds pre) \<inter> roleKinds = {}"
      using pre(2) by (rule no_roleKinds_before)
    have "roleView (w_data (snd (runSteps A w))) = roleView (w_data w)"
      unfolding A_def by (rule view_updBefore)
    then have "roleView (w_data w1) = roleView (w_data w)"
      unfolding a snd_conv .
    then have v1: "rd_id (w_data w1) = uid" "admin_roles (rd_state (w_data w1)) = old"
      "admin_roles (rd_plan (w_data w1)) = new"
      by (simp_all add: roleView_def uid_def old_def new_def)
    show ?thesis
    proof (cases r1)
      case (Some e)
      then have "res = (Some e, w1)"
        using a by (simp add: res runSteps_append)
      then have "?P pre [] []"
        unfolding P_def using pre(1) pre_no by (simp add: kinds_def)
      then show ?thesis by (intro exI)
    next
      case None
      obtain r2 w2 where b: "updRoles c True w1 = (r2, w2)" by (cases "updRoles c True w1")
      have res2: "res = (case r2 of Some e \<Rightarrow> (Some e, w2) | None \<Rightarrow> runSteps B w2)"
        using a b None by (simp add: res runSteps_append split: option.splits)
      note ul = updRoles_log [of c w1, unfolded v1 b pre(1) fst_conv snd_conv, folded L_def]
      show ?thesis
      proof (cases "rolesReply c (w_log w @ pre) L")
        case (Inl e)
        with ul have l2: "w_log w2 = w_log w @ pre @ [Remote L]" and r2: "r2 \<noteq> None"
          by simp_all
        from r2 obtain e2 where "r2 = Some e2" by blast
        then have "res = (Some e2, w2)" by (simp add: res2)
        then have "?P pre [Remote L] []"
          unfolding P_def using l2 pre_no Inl by (simp add: kinds_def)
        then show ?thesis by (intro exI)
      next
        case (Inr fetched)
        with ul obtain ev cut where
          ev: "ev @ cut = expectedRoleCalls uid (Difference old new) (Difference new old) fetched"
            "ev \<noteq> []" "w_log w2 = w_log w @ pre @ ev"
            "cut \<noteq> [] \<longrightarrow> r2 \<noteq> None" "removalsBenign c uid \<longrightarrow> cut = []"
          by auto
        show ?thesis
        proof (cases r2)
          case (Some e2)
          then have "res = (Some e2, w2)" by (simp add: res2)
          then have "?P pre ev []"
            unfolding P_def using ev pre_no Inr by (auto simp add: kinds_def)
          then show ?thesis by (intro exI)
        next
          case None
          with ev(4) have cut: "cut = []" by blast
          have r: "res = runSteps B w2" using None by (simp add: res2)
          have eB: "emits ({KAddUserToGroups, KRemoveUserFromGroups, KChangePassword,
                 KUpdateUser, KChangeRecoveryQuestion} \<union> readKinds) (runSteps B)"
            unfolding B_def by (rule emits_updAfter)
          from emitsD [OF eB, of w2] obtain post where
            post: "w_log (snd (runSteps B w2)) = w_log w2 @ post"
              "set (kinds post) \<subseteq> {KAddUserToGroups, KRemoveUserFromGroups, KChangePassword,
                 KUpdateUser, KChangeRecoveryQuestion} \<union> readKinds"
            by (elim exE conjE)
          have post_no: "set (kinds post) \<inter> roleKinds = {}"
            using post(2) by (rule no_roleKinds_after)
          have "?P pre ev post"
            unfolding P_def using ev(1,2,3) cut pre_no post_no post(1) Inr r by simp
          then show ?thesis by (intro exI)
        qed
      qed
    qed
  qed
qed

lemmas upd_defs = resourceUserUpdate_def updPasswordCheck_def updStatus_def
  updDeprovisionedCheck_def updateBody_def updProfile_def updRoles_def updGroups_def
  updPassword_def updRecovery_def hasProfileChange_def profileKeys_def

lemma set_differs: "x \<in> B \<Longrightarrow> x \<notin> A \<Longrightarrow> A \<noteq> B"
  by auto

theorem update_roles_witness:
  "HasChangeSet admin_roles
     (w_data (exWorld ''00u1''
        ((exAttrs [])\<lparr>admin_roles := [''APP_ADMIN'', ''HELP_DESK_ADMIN'']\<rparr>)
        ((exAttrs [])\<lparr>admin_roles := [''APP_ADMIN'', ''ORG_ADMIN'']\<rparr>)))
   \<and> resourceUserUpdate exHelpers notFoundClient
       (exWorld ''00u1''
          ((exAttrs [])\<lparr>admin_roles := [''APP_ADMIN'', ''HELP_DESK_ADMIN'']\<rparr>)
          ((exAttrs [])\<lparr>admin_roles := [''APP_ADMIN'', ''ORG_ADMIN'']\<rparr>))
     = (None,
        \<lparr>w_data = \<lparr>rd_id = ''00u1'',
                    rd_state = (exAttrs [])\<lparr>admin_roles := [''APP_ADMIN'', ''HELP_DESK_ADMIN'']\<rparr>,
                    rd_plan = (exAttrs [])\<lparr>admin_roles := [''APP_ADMIN'', ''ORG_ADMIN''],
                                strs := (strs (exAttrs []))(''raw_status'' := ''ACTIVE'')\<rparr>\<rparr>,
         w_log = [Remote (ListUserOnlyRoles ''00u1''),
                  Remote (RemoveRoleFromUser ''00u1'' ''ra3''),
                  Remote (AssignAdminRolesToUser ''00u1'' [''ORG_ADMIN''] False),
                  Remote (GetUser ''00u1''),
                  Remote (SetAdminRoles ''00u1'')]\<rparr>)"
proof -
  have "''ORG_ADMIN'' \<in> set [''APP_ADMIN'', ''ORG_ADMIN'']"
    and "''ORG_ADMIN'' \<notin> set [''APP_ADMIN'', ''HELP_DESK_ADMIN'']"
    by simp_all
  then have "set [''APP_ADMIN'', ''HELP_DESK_ADMIN''] \<noteq> set [''APP_ADMIN'', ''ORG_ADMIN'']"
    by (rule set_differs)
  then have chg: "HasChangeSet admin_roles
     (w_data (exWorld ''00u1''
        ((exAttrs [])\<lparr>admin_roles := [''APP_ADMIN'', ''HELP_DESK_ADMIN'']\<rparr>)
        ((exAttrs [])\<lparr>admin_roles := [''APP_ADMIN'', ''ORG_ADMIN'']\<rparr>)))"
    by (simp add: HasChangeSet_def ex_defs)
  from update_roles [OF chg, of exHelpers notFoundClient] chg show ?thesis
    by (simp add: ex_defs run_defs upd_defs)
qed

subsection \<open>A password change with an old password\<close>

lemma onlyPasswordChanged_flags:
  assumes "onlyPasswordChanged d"
  shows "HasChange d ''password''" and "\<not> HasChange d ''status''"
    and "\<not> HasChange d ''password_inline_hook''"
    and "\<not> HasChange d ''recovery_question''" and "\<not> HasChange d ''recovery_answer''"
    and "\<not> HasChangeSet admin_roles d" and "\<not> HasChangeSet group_memberships d"
    and "\<not> HasChangeSet password_hash d" and "hasProfileChange d"
proof -
  from assms have pw: "HasChange d ''password''"
    and others: "\<And>k. k \<noteq> ''password'' \<and> k \<noteq> ''old_password'' \<Longrightarrow> \<not> HasChange d k"
    and sets: "\<not> HasChangeSet admin_roles d" "\<not> HasChangeSet group_memberships d"
      "\<not> HasChangeSet password_hash d"
    unfolding onlyPasswordChanged_def by blast+
  show "HasChange d ''password''" by (rule pw)
  show "\<not> HasChange d ''status''" by (rule others) simp
  show "\<not> HasChange d ''password_inline_hook''" by (rule others) simp
  show "\<not> HasChange d ''recovery_question''" by (rule others) simp
  show "\<not> HasChange d ''recovery_answer''" by (rule others) simp
  show "\<not> HasChangeSet admin_roles d" "\<not> HasChangeSet group_memberships d"
    "\<not> HasChangeSet password_hash d" by (rule sets)+
  show "hasProfileChange d"
    using pw by (simp add: hasProfileChange_def profileKeys_def)
qed

text \<open>
  C1. An update in which only the password changed and \<^verbatim>\<open>old_password\<close> is supplied
  first fetches the user. If the fetch fails, the fetched status is PROVISIONED, or the
  desired status is DEPROVISIONED, nothing more is issued. Otherwise, because
  \<^verbatim>\<open>password\<close> is one of the profile keys, one update-user call resubmits the
  profile, with no credentials in it; if that call fails nothing more is issued, and if
  it succeeds exactly one change-password call follows, carrying \<^verbatim>\<open>old_password\<close> and
  the new password. After it come only events of the final read. No update-user call
  carrying the password is issued.
\<close>

theorem update_password_with_old:
  fixes w :: "'a world"
  assumes only: "onlyPasswordChanged (w_data w)"
    and oldpw: "Get (w_data w) ''old_password'' \<noteq> []"
  shows
    "case userReply c (w_log w) (GetUser (rd_id (w_data w))) of
       Inl e \<Rightarrow>
         w_log (snd (resourceUserUpdate h c w)) = w_log w @ [Remote (GetUser (rd_id (w_data w)))]
     | Inr user \<Rightarrow>
         if user_Status user = ''PROVISIONED'' \<or> Get (w_data w) ''status'' = userStatusDeprovisioned
         then w_log (snd (resourceUserUpdate h c w)) = w_log w @ [Remote (GetUser (rd_id (w_data w)))]
         else
           (case errReply c (w_log w @ [Remote (GetUser (rd_id (w_data w)))])
                   (UpdateUser (rd_id (w_data w))
                      \<lparr>ub_Profile = Some (populateUserProfile h (w_data w)), ub_Credentials = None\<rparr>) of
              Some e \<Rightarrow>
                w_log (snd (resourceUserUpdate h c w))
                  = w_log w @
                    [Remote (GetUser (rd_id (w_data w))),
                     Remote (UpdateUser (rd_id (w_data w))
                       \<lparr>ub_Profile = Some (populateUserProfile h (w_data w)), ub_Credentials = None\<rparr>)]
            | None \<Rightarrow>
                (\<exists>rest.
                   w_log (snd (resourceUserUpdate h c w))
                     = w_log w @
                       [Remote (GetUser (rd_id (w_data w))),
                        Remote (UpdateUser (rd_id (w_data w))
                          \<lparr>ub_Profile = Some (populateUserProfile h (w_data w)), ub_Credentials = None\<rparr>),
                        Remote (ChangePassword (rd_id (w_data w))
                          \<lparr>pc_Value = Get (w_data w) ''old_password'', pc_Hash = None, pc_Hook = None\<rparr>
                          \<lparr>pc_Value = Get (w_data w) ''password'', pc_Hash = None, pc_Hook = None\<rparr>)]
                       @ rest
                   \<and> set (kinds rest) \<subseteq> {KGetUser, KIdSet, KSetAdminRoles, KSetGroupUserMemberships}))"
proof -
  define uid where "uid = rd_id (w_data w)"
  define status where "status = Get (w_data w) ''status''"
  define G :: "'a event" where "G = Remote (GetUser uid)"
  define U :: "'a call" where
    "U = UpdateUser uid \<lparr>ub_Profile = Some (populateUserProfile h (w_data w)), ub_Credentials = None\<rparr>"
  define C :: "'a call" where
    "C = ChangePassword uid
           \<lparr>pc_Value = Get (w_data w) ''old_password'', pc_Hash = None, pc_Hook = None\<rparr>
           \<lparr>pc_Value = Get (w_data w) ''password'', pc_Hash = None, pc_Hook = None\<rparr>"
  define res where "res = resourceUserUpdate h c w"
  define w1 where "w1 = w\<lparr>w_log := w_log w @ [G]\<rparr>"
  define w2 where "w2 = w\<lparr>w_log := w_log w @ [G, Remote U]\<rparr>"
  define w3 where "w3 = w\<lparr>w_log := w_log w @ [G, Remote U, Remote C]\<rparr>"
  note fl = onlyPasswordChanged_flags [OF only]
  have ns: "\<not> (Get (w_data w) ''status'' = userStatusStaged \<and> HasChange (w_data w) ''status'')"
    using fl(2) by (rule contrapos_nn) (erule conjunct2)
  have "res = runSteps
                 [updPasswordCheck c (HasChange (w_data w) ''password''),
                  updStatus c (HasChange (w_data w) ''status'') (Get (w_data w) ''status''),
                  updDeprovisionedCheck (Get (w_data w) ''status'') (hasProfileChange (w_data w)),
                  updProfile h c (hasProfileChange (w_data w))
                    (HasChangeSet password_hash (w_data w))
                    (HasChange (w_data w) ''password_inline_hook''),
                  updRoles c (HasChangeSet admin_roles (w_data w)),
                  updGroups c (HasChangeSet group_memberships (w_data w)),
                  updPassword c (HasChange (w_data w) ''password''),
                  updRecovery c (HasChange (w_data w) ''recovery_question''
                                 \<or> HasChange (w_data w) ''recovery_answer''),
                  resourceUserRead h c] w"
    unfolding res_def resourceUserUpdate_def Let_def by (simp only: ns if_False)
  then have res: "res = runSteps
                 [updPasswordCheck c True, updStatus c False status,
                  updDeprovisionedCheck status True, updProfile h c True False False,
                  updRoles c False, updGroups c False, updPassword c True,
                  updRecovery c False, resourceUserRead h c] w"
    using fl by (simp add: status_def del: runSteps.simps)
  have s1: "updPasswordCheck c True w =
      (case userReply c (w_log w) (GetUser uid) of
         Inl e \<Rightarrow> (Some (''failed to get user: '' @ err_msg e), w1)
       | Inr user \<Rightarrow>
           if user_Status user = ''PROVISIONED''
           then (Some (''can not change password for provisioned user, the activation workflow should be ''
                   @ ''finished first. Please, check this diagram https://developer.okta.com/docs/reference/api/users/#user-status for more clarity.''), w1)
           else (None, w1))"
    by (simp add: updPasswordCheck_def remoteUser_def uid_def w1_def G_def split: sum.splits)
  have l1: "w_log w1 = w_log w @ [G]" and l2: "w_log w2 = w_log w @ [G, Remote U]"
    and l3: "w_log w3 = w_log w @ [G, Remote U, Remote C]"
    by (simp_all add: w1_def w2_def w3_def)
  have s2: "updStatus c False st w' = (None, w')" for st and w' :: "'a world"
    by (simp add: updStatus_def)
  have s3: "updDeprovisionedCheck st True w' =
      (if st = userStatusDeprovisioned
       then (Some ''Only the status of a DEPROVISIONED user can be updated, we detected other change'', w')
       else (None, w'))" for st and w' :: "'a world"
    by (simp add: updDeprovisionedCheck_def)
  have body: "updateBody h False False (w_data w1)
                = \<lparr>ub_Profile = Some (populateUserProfile h (w_data w)), ub_Credentials = None\<rparr>"
    by (simp add: updateBody_def w1_def Let_def)
  have s4: "updProfile h c True False False w1 =
      (case errReply c (w_log w @ [G]) U of
         Some e \<Rightarrow> (Some (''failed to update user: '' @ err_msg e), w2)
       | None \<Rightarrow> (None, w2))"
    unfolding updProfile_def body
    by (simp add: orFail_def remote_def w1_def w2_def U_def uid_def split: option.splits)
  have s5: "updRoles c False w' = (None, w')" for w' :: "'a world"
    by (simp add: updRoles_def)
  have s6: "updGroups c False w' = (None, w')" for w' :: "'a world"
    by (simp add: updGroups_def)
  have s7: "w_log (snd (updPassword c True w2)) = w_log w3"
    "fst (updPassword c True w2) = None \<Longrightarrow> updPassword c True w2 = (None, w3)"
    using oldpw
    by (simp_all add: updPassword_def GetOk_def Get_def orFail_def remote_def w2_def w3_def
        C_def uid_def Let_def split: option.splits)
  have s8: "updRecovery c False w' = (None, w')" for w' :: "'a world"
    by (simp add: updRecovery_def)
  have goal: "case userReply c (w_log w) (GetUser uid) of
       Inl e \<Rightarrow> w_log (snd res) = w_log w @ [G]
     | Inr user \<Rightarrow>
         if user_Status user = ''PROVISIONED'' \<or> status = userStatusDeprovisioned
         then w_log (snd res) = w_log w @ [G]
         else
           (case errReply c (w_log w @ [G]) U of
              Some e \<Rightarrow> w_log (snd res) = w_log w @ [G, Remote U]
            | None \<Rightarrow>
                (\<exists>rest. w_log (snd res) = w_log w @ [G, Remote U, Remote C] @ rest
                   \<and> set (kinds rest) \<subseteq> {KGetUser, KIdSet, KSetAdminRoles, KSetGroupUserMemberships}))"
  proof (cases "userReply c (w_log w) (GetUser uid)")
    case (Inl e)
    then show ?thesis by (simp add: res s1 l1)
  next
    case (Inr user)
    show ?thesis
    proof (cases "user_Status user = ''PROVISIONED''")
      case True
      with Inr show ?thesis by (simp add: res s1 l1)
    next
      case np: False
      show ?thesis
      proof (cases "status = userStatusDeprovisioned")
        case True
        with Inr np show ?thesis by (simp add: res s1 s2 s3 l1)
      next
        case nd: False
        have r4: "res = (case updProfile h c True False False w1 of
                          (Some e, w') \<Rightarrow> (Some e, w')
                        | (None, w') \<Rightarrow>
                            runSteps [updRoles c False, updGroups c False, updPassword c True,
                              updRecovery c False, resourceUserRead h c] w')"
          using Inr np nd by (simp add: res s1 s2 s3)
        show ?thesis
        proof (cases "errReply c (w_log w @ [G]) U")
          case (Some e)
          with Inr np nd show ?thesis by (simp add: r4 s4 l2)
        next
          case None
          obtain r7 w7 where p7: "updPassword c True w2 = (r7, w7)"
            by (cases "updPassword c True w2")
          have l7: "w_log w7 = w_log w3" using s7(1) p7 by simp
          have r5: "res = (case r7 of Some e \<Rightarrow> (Some e, w7)
                          | None \<Rightarrow> resourceUserRead h c w3)"
          proof (cases r7)
            case (Some e7)
            then show ?thesis using None p7 by (simp add: r4 s4 s5 s6)
          next
            case n7: None
            then have "updPassword c True w2 = (None, w3)" using s7(2) p7 by simp
            then show ?thesis using None n7
              by (simp add: r4 s4 s5 s6 s8 split: prod.splits option.splits)
          qed
          have "\<exists>rest. w_log (snd res) = w_log w @ [G, Remote U, Remote C] @ rest
                   \<and> set (kinds rest) \<subseteq> {KGetUser, KIdSet, KSetAdminRoles, KSetGroupUserMemberships}"
          proof (cases r7)
            case (Some e7)
            then have "w_log (snd res) = w_log w @ [G, Remote U, Remote C] @ []"
              using l7 by (simp add: r5 l3)
            moreover have "set (kinds ([]::'a event list))
                \<subseteq> {KGetUser, KIdSet, KSetAdminRoles, KSetGroupUserMemberships}"
              by (simp add: kinds_def)
            ultimately show ?thesis by (intro exI conjI)
          next
            case n7: None
            from emitsD [OF emits_read, of h c w3] obtain rest where
              rest: "w_log (snd (resourceUserRead h c w3)) = w_log w3 @ rest"
                "set (kinds rest) \<subseteq> readKinds"
              by (elim exE conjE)
            have "w_log (snd res) = w_log w @ [G, Remote U, Remote C] @ rest"
              using n7 rest(1) by (simp add: r5 l3)
            moreover have "set (kinds rest) \<subseteq> {KGetUser, KIdSet, KSetAdminRoles, KSetGroupUserMemberships}"
              using rest(2) by (simp add: readKinds_def)
            ultimately show ?thesis by (intro exI conjI)
          qed
          with Inr np nd None show ?thesis by simp
        qed
      qed
    qed
  qed
  then show ?thesis
    unfolding res_def uid_def status_def G_def U_def C_def .
qed

lemma exPasswordUpdate_only: "onlyPasswordChanged (w_data exPasswordUpdate)"
  unfolding onlyPasswordChanged_def
  by (simp add: exPasswordUpdate_def ex_defs HasChange_def HasChangeSet_def)

lemma exPasswordUpdate_old: "Get (w_data exPasswordUpdate) ''old_password'' \<noteq> []"
  by (simp add: exPasswordUpdate_def ex_defs Get_def)

text \<open>
  The claim as stated fails: at this input, where only the password changed and
  \<^verbatim>\<open>old_password\<close> is supplied, an update-user call is issued before the
  change-password call.
\<close>

theorem update_password_counterexample:
  "onlyPasswordChanged (w_data exPasswordUpdate)
   \<and> Get (w_data exPasswordUpdate) ''old_password'' = ''old-secret''
   \<and> w_log (snd (resourceUserUpdate exHelpers okClient exPasswordUpdate))
     = [Remote (GetUser ''00u1''),
        Remote (UpdateUser ''00u1'' \<lparr>ub_Profile = Some ''a@b.com'', ub_Credentials = None\<rparr>),
        Remote (ChangePassword ''00u1''
                  \<lparr>pc_Value = ''old-secret'', pc_Hash = None, pc_Hook = None\<rparr>
                  \<lparr>pc_Value = ''new-secret'', pc_Hash = None, pc_Hook = None\<rparr>),
        Remote (GetUser ''00u1''),
        Remote (SetAdminRoles ''00u1'')]"
  using exPasswordUpdate_only
  by (simp add: exPasswordUpdate_def ex_defs run_defs upd_defs)

theorem update_password_with_old_witness:
  "onlyPasswordChanged (w_data exPasswordUpdate)
   \<and> Get (w_data exPasswordUpdate) ''old_password'' \<noteq> []
   \<and> (\<exists>rest.
         w_log (snd (resourceUserUpdate exHelpers okClient exPasswordUpdate))
           = [Remote (GetUser ''00u1''),
              Remote (UpdateUser ''00u1'' \<lparr>ub_Profile = Some ''a@b.com'', ub_Credentials = None\<rparr>),
              Remote (ChangePassword ''00u1''
                        \<lparr>pc_Value = ''old-secret'', pc_Hash = None, pc_Hook = None\<rparr>
                        \<lparr>pc_Value = ''new-secret'', pc_Hash = None, pc_Hook = None\<rparr>)] @ rest
         \<and> set (kinds rest) \<subseteq> {KGetUser, KIdSet, KSetAdminRoles, KSetGroupUserMemberships})"
proof -
  note t = update_password_with_old [where w = exPasswordUpdate and c = okClient
      and h = exHelpers, OF exPasswordUpdate_only exPasswordUpdate_old]
  have "\<exists>rest.
         w_log (snd (resourceUserUpdate exHelpers okClient exPasswordUpdate))
           = [Remote (GetUser ''00u1''),
              Remote (UpdateUser ''00u1'' \<lparr>ub_Profile = Some ''a@b.com'', ub_Credentials = None\<rparr>),
              Remote (ChangePassword ''00u1''
                        \<lparr>pc_Value = ''old-secret'', pc_Hash = None, pc_Hook = None\<rparr>
                        \<lparr>pc_Value = ''new-secret'', pc_Hash = None, pc_Hook = None\<rparr>)] @ rest
         \<and> set (kinds rest) \<subseteq> {KGetUser, KIdSet, KSetAdminRoles, KSetGroupUserMemberships}"
    using t
    by (simp add: exPasswordUpdate_def ex_defs Get_def userStatusDeprovisioned_def)
  with exPasswordUpdate_only exPasswordUpdate_old show ?thesis by (intro conjI)
qed

end
